theory Spec2Isabelle
  imports Main
begin

section \<open>Python values used by the three modules\<close>

text \<open>
  Exceptions are values. The constructors are the classes the source names in its
  \<^verbatim>\<open>except\<close> clauses and \<^verbatim>\<open>raise\<close> statements, the ones the Python built-ins it
  calls raise, and one constructor for any other subclass of \<^verbatim>\<open>Exception\<close>. Each carries
  the text that \<^verbatim>\<open>str(e)\<close> yields. Every constructor is a subclass of \<^verbatim>\<open>Exception\<close>, so
  \<^verbatim>\<open>except Exception\<close> catches all of them; cancellation of an awaiting task is not an
  \<^verbatim>\<open>Exception\<close> and is outside this model.
\<close>

datatype exn =
    Forbidden string
  | NotFound string
  | InteractionResponded string
  | RuntimeError string
  | AttributeError string
  | ValueError string
  | OtherException string

fun str_exn :: "exn \<Rightarrow> string" where
  "str_exn (Forbidden m) = m"
| "str_exn (NotFound m) = m"
| "str_exn (InteractionResponded m) = m"
| "str_exn (RuntimeError m) = m"
| "str_exn (AttributeError m) = m"
| "str_exn (ValueError m) = m"
| "str_exn (OtherException m) = m"

text \<open>
  Python strings are modelled as lists of 8-bit characters, each character standing for
  the code point of the same number (0 to 255). The tables below are those of
  \<^verbatim>\<open>str.isspace\<close>, \<^verbatim>\<open>str.lower\<close> and \<^verbatim>\<open>str.upper\<close> on that range.
\<close>

definition py_isspace :: "char \<Rightarrow> bool" where
  "py_isspace c =
     (let n = (of_char c :: nat)
      in (9 \<le> n \<and> n \<le> 13) \<or> (28 \<le> n \<and> n \<le> 32) \<or> n = 133 \<or> n = 160)"

definition py_strip :: "string \<Rightarrow> string" where
  "py_strip s = rev (dropWhile py_isspace (rev (dropWhile py_isspace s)))"

definition py_lower_char :: "char \<Rightarrow> char" where
  "py_lower_char c =
     (let n = (of_char c :: nat)
      in if (65 \<le> n \<and> n \<le> 90) \<or> (192 \<le> n \<and> n \<le> 222 \<and> n \<noteq> 215)
         then char_of (n + 32) else c)"

definition py_lower :: "string \<Rightarrow> string" where
  "py_lower s = map py_lower_char s"

text \<open>
  \<^verbatim>\<open>str.upper\<close>: the sharp s (223) becomes two letters. The upper-case forms of the
  characters 181 and 255 lie above 255; they are left in place here, which changes no
  comparison with the ASCII level names, the only use of \<open>py_upper\<close>.
\<close>

definition py_upper_char :: "char \<Rightarrow> string" where
  "py_upper_char c =
     (let n = (of_char c :: nat)
      in if (97 \<le> n \<and> n \<le> 122) \<or> (224 \<le> n \<and> n \<le> 254 \<and> n \<noteq> 247)
         then [char_of (n - 32)]
         else if n = 223 then ''SS'' else [c])"

definition py_upper :: "string \<Rightarrow> string" where
  "py_upper s = concat (map py_upper_char s)"

text \<open>\<^verbatim>\<open>str(n)\<close> for a non-negative integer: its decimal digits.\<close>

fun str_nat :: "nat \<Rightarrow> string" where
  "str_nat n =
     (if n < 10 then [char_of (48 + n)]
      else str_nat (n div 10) @ [char_of (48 + n mod 10)])"

section \<open>The logging library as \<^verbatim>\<open>dismob/log.py\<close> uses it\<close>

datatype handler_kind = FileHandler | StreamHandler

datatype formatter = Formatter string string | ColorFormatter string string

record handler =
  hkind :: handler_kind
  hlevel :: nat
  hformatter :: formatter

text \<open>A logger object: its attributes, and its parent by name (\<^verbatim>\<open>Logger.parent\<close>; the
  root logger has none, and the field is not read for it).\<close>

record pylogger =
  level :: nat
  handlers :: "handler list"
  propagate :: bool
  parent :: string

record log_record =
  rec_name :: string
  rec_levelno :: nat
  rec_msg :: string
  rec_stack_info :: bool

definition DEBUG :: nat where "DEBUG = 10"
definition INFO :: nat where "INFO = 20"
definition WARNING :: nat where "WARNING = 30"
definition ERROR :: nat where "ERROR = 40"
definition CRITICAL :: nat where "CRITICAL = 50"

text \<open>\<^verbatim>\<open>logging.getLevelNamesMapping()\<close>.\<close>

definition getLevelNamesMapping :: "(string \<times> nat) list" where
  "getLevelNamesMapping =
     [(''CRITICAL'', 50), (''FATAL'', 50), (''ERROR'', 40), (''WARN'', 30),
      (''WARNING'', 30), (''INFO'', 20), (''DEBUG'', 10), (''NOTSET'', 0)]"

text \<open>\<^verbatim>\<open>dict.get(key, default)\<close> on an association list.\<close>

definition dict_get :: "('k \<times> 'v) list \<Rightarrow> 'k \<Rightarrow> 'v \<Rightarrow> 'v" where
  "dict_get d k dflt = (case map_of d k of None \<Rightarrow> dflt | Some v \<Rightarrow> v)"

section \<open>Discord objects\<close>

datatype colour = Colour int

text \<open>
  The class \<^verbatim>\<open>discord.Colour\<close> belongs to the discord library, which is not part of the
  repository: its three class methods that the source calls by name, and the lookup
  \<^verbatim>\<open>getattr(discord.Colour, name)\<close>, are taken as a parameter. A name the class does not
  define makes \<^verbatim>\<open>getattr\<close> raise \<^verbatim>\<open>AttributeError\<close>.
\<close>

record discord_Colour =
  blurple :: colour
  green :: colour
  red :: colour
  classmethods :: "string \<Rightarrow> colour option"

datatype 'a missing = MISSING | Given 'a

record embed =
  e_title :: "string option"
  e_color :: colour
  e_description :: string
  e_footer :: "(string \<times> string) option"

text \<open>A view is an object with an identity and a type, the type given by the names of its
  class and of that class's ancestors. A file is only passed on: an identity suffices.\<close>

record ui_view =
  view_id :: nat
  view_mro :: "string list"

type_synonym attachment = nat

record text_channel =
  channel_id :: nat
  channel_name :: string

record cmd_context =
  context_id :: nat
  author_display_name :: string
  author_display_avatar :: string

record interaction =
  interaction_id :: nat
  application_id :: nat

datatype target = Context cmd_context | Interaction interaction

text \<open>The keyword arguments of \<^verbatim>\<open>interaction.response.send_message\<close> and \<^verbatim>\<open>interaction.followup.send\<close>.\<close>

record send_kwargs =
  kw_content :: "string option"
  kw_embed :: "embed missing"
  kw_view :: "ui_view missing"
  kw_file :: "attachment missing"
  kw_ephemeral :: bool

datatype coroutine =
    Response_send_message interaction send_kwargs
  | Followup_send interaction send_kwargs

text \<open>
  The calls that leave the module: \<^verbatim>\<open>get_rate_limiter().safe_send\<close>,
  \<^verbatim>\<open>get_rate_limiter().execute_request\<close> with its route and major parameters, and
  \<^verbatim>\<open>ctx.send\<close> with its embed and \<^verbatim>\<open>delete_after\<close>.
\<close>

datatype net_call =
    Safe_send text_channel "string option" "embed option" "ui_view option" "attachment option"
  | Execute_request coroutine string "(string \<times> nat) list"
  | Ctx_send cmd_context embed nat

text \<open>
  The rate limiter (\<^verbatim>\<open>dismob/rate_limiter.py\<close>) and the discord client are not in the
  source: what each call returns or raises is a parameter. A message handle or result
  is a number.
\<close>

type_synonym remote = "net_call \<Rightarrow> exn + nat"

section \<open>State\<close>

text \<open>
  \<open>loggers\<close> holds the logger objects by name, the root logger under the name \<^verbatim>\<open>root\<close>;
  \<open>created\<close> is the set of names under which the logging manager's dictionary holds a
  logger (the root is not in that dictionary). \<open>logger\<close> is the module global of
  \<^verbatim>\<open>dismob/log.py\<close> (a reference to a logger object, \<open>None\<close> before \<^verbatim>\<open>setup_logger\<close>),
  \<open>records\<close> the records handed to the logger's \<^verbatim>\<open>debug\<close>, \<^verbatim>\<open>info\<close>, \<^verbatim>\<open>warning\<close> and
  \<^verbatim>\<open>error\<close> methods in order, and \<open>requests\<close> the calls that left the module in order.
  A log entry is a member of \<open>records\<close>; the thresholds the logging library applies
  afterwards, inside the logger and its handlers, are not part of the source.
\<close>

record state =
  loggers :: "string \<Rightarrow> pylogger"
  created :: "string set"
  logger :: "string option"
  records :: "log_record list"
  requests :: "net_call list"

type_synonym 'a outcome = "(exn + 'a) \<times> state"

definition and_then :: "'a outcome \<Rightarrow> ('a \<Rightarrow> state \<Rightarrow> 'b outcome) \<Rightarrow> 'b outcome" where
  "and_then r f = (case r of (Inl e, s) \<Rightarrow> (Inl e, s) | (Inr a, s) \<Rightarrow> f a s)"

section \<open>\<^verbatim>\<open>dismob/log.py\<close>\<close>

subsection \<open>\<^verbatim>\<open>setup_logger\<close>\<close>

text \<open>
  \<^verbatim>\<open>logging.getLogger(name)\<close>: the empty name and the name \<^verbatim>\<open>root\<close> denote the root
  logger; any other name denotes the logger the manager holds under it, created on first
  use.
\<close>

definition logger_key :: "string \<Rightarrow> string" where
  "logger_key name = (if name = [] \<or> name = ''root'' then ''root'' else name)"

text \<open>
  The prefixes of a name that the manager visits when it looks for the parent of a new
  logger (\<^verbatim>\<open>Manager._fixupParents\<close>): \<^verbatim>\<open>i = name.rfind(".")\<close>, then, while \<^verbatim>\<open>i > 0\<close>,
  the prefix \<^verbatim>\<open>name[:i]\<close> and \<^verbatim>\<open>i = name.rfind(".", 0, i - 1)\<close>. \<open>dot_positions\<close> are the
  positions of the dots from the right, and \<open>rfind_walk ps b\<close> picks those the loop stops
  at, \<open>b\<close> being the end of the range searched next.
\<close>

definition dot_positions :: "string \<Rightarrow> nat list" where
  "dot_positions name = filter (\<lambda>i. name ! i = CHR ''.'') (rev [0..<length name])"

fun rfind_walk :: "nat list \<Rightarrow> nat \<Rightarrow> nat list" where
  "rfind_walk [] b = []"
| "rfind_walk (i # ps) b =
     (if i < b then (if 0 < i then i # rfind_walk ps (i - 1) else [])
      else rfind_walk ps b)"

definition dotted_prefixes :: "string \<Rightarrow> string list" where
  "dotted_prefixes name =
     map (\<lambda>i. take i name) (rfind_walk (dot_positions name) (length name))"

text \<open>The parent of a new logger: the first of those prefixes that names a created
  logger, the root when there is none.\<close>

definition fixupParents :: "state \<Rightarrow> string \<Rightarrow> string" where
  "fixupParents st name =
     (case filter (\<lambda>p. p \<in> created st) (dotted_prefixes name) of
        [] \<Rightarrow> ''root''
      | p # _ \<Rightarrow> p)"

text \<open>
  \<^verbatim>\<open>Manager._fixupChildren\<close>: when a logger is created under \<open>name\<close>, a logger \<open>d\<close>
  created before it, on whose way to the root \<open>name\<close> lies, gets the new logger as its
  parent unless the name of its present parent starts with \<open>name\<close>.
\<close>

definition fixupChildren :: "state \<Rightarrow> string \<Rightarrow> string \<Rightarrow> bool" where
  "fixupChildren st name d =
     (d \<in> created st \<and> name \<in> set (dotted_prefixes d) \<and>
      take (length name) (parent (loggers st d)) \<noteq> name)"

text \<open>A new logger has level 0 (\<^verbatim>\<open>NOTSET\<close>), no handler, and propagates.\<close>

definition new_logger :: "string \<Rightarrow> pylogger" where
  "new_logger p = \<lparr>level = 0, handlers = [], propagate = True, parent = p\<rparr>"

definition getLogger :: "state \<Rightarrow> string \<Rightarrow> string \<times> state" where
  "getLogger st name =
     (let n = logger_key name
      in if n = ''root'' \<or> n \<in> created st then (n, st)
         else (n, st\<lparr>created := insert n (created st),
                     loggers := (\<lambda>d. if d = n then new_logger (fixupParents st n)
                                      else if fixupChildren st n d then (loggers st d)\<lparr>parent := n\<rparr>
                                      else loggers st d)\<rparr>))"

text \<open>
  \<^verbatim>\<open>Logger.hasHandlers\<close> walks from the logger towards the root: a logger with a handler
  ends the walk with \<^verbatim>\<open>True\<close>, a logger that does not propagate ends it with \<^verbatim>\<open>False\<close>,
  and so does the root; otherwise the walk goes on at the parent. \<open>chain_link\<close> is what
  the loop reads of a logger. The loop follows the parent references as they are, and
  need not end: \<open>None\<close> is a walk that does not return.
\<close>

definition chain_link :: "state \<Rightarrow> string \<Rightarrow> bool \<times> bool \<times> string" where
  "chain_link st c =
     (handlers (loggers st c) \<noteq> [], propagate (loggers st c), parent (loggers st c))"

partial_function (option) has_handlers_from ::
  "(string \<Rightarrow> bool \<times> bool \<times> string) \<Rightarrow> string \<Rightarrow> bool option" where
  "has_handlers_from link c =
     (case link c of
        (has, prop, par) \<Rightarrow>
          if has then Some True
          else if \<not> prop then Some False
          else if c = ''root'' then Some False
          else has_handlers_from link par)"

definition hasHandlers :: "state \<Rightarrow> string \<Rightarrow> bool option" where
  "hasHandlers st n = has_handlers_from (chain_link st) n"

definition file_fmt :: string where
  "file_fmt = ''%(asctime)s [%(levelname)-8s] %(name)s: %(message)s''"

definition console_fmt :: string where
  "console_fmt = ''%(asctime)s %(levelname)-8s %(name)s %(message)s''"

definition datefmt :: string where
  "datefmt = ''%Y-%m-%d %H:%M:%S''"

text \<open>\<^verbatim>\<open>Logger.setLevel\<close> and \<^verbatim>\<open>Logger.addHandler\<close>. A handler built by the caller is a
  new object, never among the handlers already attached: it is appended.\<close>

definition setLevel :: "state \<Rightarrow> string \<Rightarrow> nat \<Rightarrow> state" where
  "setLevel st n lvl = st\<lparr>loggers := (loggers st)(n := (loggers st n)\<lparr>level := lvl\<rparr>)\<rparr>"

definition addHandler :: "state \<Rightarrow> string \<Rightarrow> handler \<Rightarrow> state" where
  "addHandler st n h =
     st\<lparr>loggers := (loggers st)(n := (loggers st n)\<lparr>handlers := handlers (loggers st n) @ [h]\<rparr>)\<rparr>"

text \<open>
  The global is assigned and the logger's level set on every call; the two handlers are
  built on every call and attached only under the guard. Opening the log file is
  taken to succeed. The result is \<open>None\<close> when the walk of \<^verbatim>\<open>hasHandlers\<close> does not
  return.
\<close>

definition setup_logger :: "state \<Rightarrow> string \<Rightarrow> string \<Rightarrow> string \<Rightarrow> state option" where
  "setup_logger st logger_name file_level console_level =
     (let logLevels = getLevelNamesMapping;
          file_logLevel = dict_get logLevels (py_upper file_level) INFO;
          console_logLevel = dict_get logLevels (py_upper console_level) INFO;
          (n, st0) = getLogger st logger_name;
          st1 = st0\<lparr>logger := Some n\<rparr>;
          st2 = setLevel st1 n (min file_logLevel console_logLevel);
          file_handler = \<lparr>hkind = FileHandler, hlevel = file_logLevel,
                          hformatter = Formatter file_fmt datefmt\<rparr>;
          console_handler = \<lparr>hkind = StreamHandler, hlevel = console_logLevel,
                             hformatter = ColorFormatter console_fmt datefmt\<rparr>
      in case hasHandlers st2 n of
           None \<Rightarrow> None
         | Some has \<Rightarrow>
             if \<not> has
             then Some (addHandler (addHandler st2 n file_handler) n console_handler)
             else Some st2)"

subsection \<open>Logging functions\<close>

text \<open>
  A method call on the global \<^verbatim>\<open>logger\<close>: on \<^verbatim>\<open>None\<close> the attribute lookup raises
  \<^verbatim>\<open>AttributeError\<close>; otherwise the record is handed to the logger.
\<close>

definition logger_call :: "nat \<Rightarrow> bool \<Rightarrow> state \<Rightarrow> string \<Rightarrow> unit outcome" where
  "logger_call lvl stack st msg =
     (case logger st of
        None \<Rightarrow> (Inl (AttributeError ''NoneType object has no attribute''), st)
      | Some n \<Rightarrow>
          (Inr (), st\<lparr>records := records st @
             [\<lparr>rec_name = n, rec_levelno = lvl, rec_msg = msg, rec_stack_info = stack\<rparr>]\<rparr>))"

definition not_set_up :: exn where
  "not_set_up = RuntimeError ''Logger has not been set up. Call setup_logger() first.''"

definition require_logger ::
  "(state \<Rightarrow> string \<Rightarrow> unit outcome) \<Rightarrow> state \<Rightarrow> string \<Rightarrow> unit outcome" where
  "require_logger func st msg =
     (if logger st = None then (Inl not_set_up, st) else func st msg)"

definition debug :: "state \<Rightarrow> string \<Rightarrow> unit outcome" where
  "debug = require_logger (logger_call DEBUG False)"

definition info :: "state \<Rightarrow> string \<Rightarrow> unit outcome" where
  "info = require_logger (logger_call INFO False)"

definition warning :: "state \<Rightarrow> string \<Rightarrow> unit outcome" where
  "warning = require_logger (logger_call WARNING False)"

definition error :: "state \<Rightarrow> string \<Rightarrow> bool \<Rightarrow> unit outcome" where
  "error st msg stacktrace = require_logger (logger_call ERROR stacktrace) st msg"

subsection \<open>Discord helpers\<close>

definition missing_if_none :: "'a option \<Rightarrow> 'a missing" where
  "missing_if_none v = (case v of None \<Rightarrow> MISSING | Some x \<Rightarrow> Given x)"

text \<open>Awaiting a call that leaves the module: the call is recorded, and the outside
  decides what it returns or raises.\<close>

definition await :: "remote \<Rightarrow> state \<Rightarrow> net_call \<Rightarrow> nat outcome" where
  "await rl st call = (rl call, st\<lparr>requests := requests st @ [call]\<rparr>)"

text \<open>The \<^verbatim>\<open>except\<close> clauses of \<^verbatim>\<open>safe_send_message\<close>, in the order of the source.\<close>

fun send_message_except :: "text_channel \<Rightarrow> exn \<Rightarrow> state \<Rightarrow> nat option outcome" where
  "send_message_except channel (Forbidden m) s =
     and_then (error s (''Bot has not the permission to send messages in '' @ channel_name channel) True)
       (\<lambda>_ s'. (Inr None, s'))"
| "send_message_except channel (NotFound m) s =
     and_then (error s (''Channel '' @ channel_name channel @ '' not found'') True)
       (\<lambda>_ s'. (Inr None, s'))"
| "send_message_except channel e s =
     and_then (error s (''Error when sending message: '' @ str_exn e) True)
       (\<lambda>_ s'. (Inr None, s'))"

definition safe_send_message ::
  "remote \<Rightarrow> state \<Rightarrow> text_channel \<Rightarrow> string option \<Rightarrow> embed option \<Rightarrow> ui_view option \<Rightarrow>
   attachment option \<Rightarrow> nat option outcome" where
  "safe_send_message rl st channel content emb view file =
     (case and_then (await rl st (Safe_send channel content emb view file))
             (\<lambda>result s. and_then (info s (''Message sent in '' @ channel_name channel))
                (\<lambda>_ s'. (Inr (Some result), s')))
      of (Inr r, s) \<Rightarrow> (Inr r, s)
       | (Inl e, s) \<Rightarrow> send_message_except channel e s)"

definition followup_route :: string where
  "followup_route = ''POST /webhooks/{application_id}/{interaction_token}''"

definition callback_route :: string where
  "callback_route = ''POST /interactions/{interaction_id}/{interaction_token}/callback''"

definition make_kwargs ::
  "string option \<Rightarrow> embed option \<Rightarrow> ui_view option \<Rightarrow> attachment option \<Rightarrow> bool \<Rightarrow> send_kwargs" where
  "make_kwargs content emb view file ephemeral =
     \<lparr>kw_content = content, kw_embed = missing_if_none emb, kw_view = missing_if_none view,
      kw_file = missing_if_none file, kw_ephemeral = ephemeral\<rparr>"

definition safe_followup ::
  "remote \<Rightarrow> state \<Rightarrow> interaction \<Rightarrow> string option \<Rightarrow> embed option \<Rightarrow> ui_view option \<Rightarrow>
   attachment option \<Rightarrow> bool \<Rightarrow> nat option outcome" where
  "safe_followup rl st itx content emb view file ephemeral =
     (case await rl st
             (Execute_request (Followup_send itx (make_kwargs content emb view file ephemeral))
                followup_route [(''application_id'', application_id itx)])
      of (Inr r, s) \<Rightarrow> (Inr (Some r), s)
       | (Inl e, s) \<Rightarrow>
           and_then (error s (''Error during the followup: '' @ str_exn e) True)
             (\<lambda>_ s'. (Inr None, s')))"

text \<open>The \<^verbatim>\<open>except\<close> clauses of \<^verbatim>\<open>safe_respond\<close>. The first awaits \<^verbatim>\<open>safe_followup\<close>
  and drops what it returns: the function then ends without a \<^verbatim>\<open>return\<close>.\<close>

fun respond_except ::
  "remote \<Rightarrow> interaction \<Rightarrow> string option \<Rightarrow> embed option \<Rightarrow> ui_view option \<Rightarrow>
   attachment option \<Rightarrow> bool \<Rightarrow> exn \<Rightarrow> state \<Rightarrow> nat option outcome" where
  "respond_except rl itx content emb view file ephemeral (InteractionResponded m) s =
     and_then (safe_followup rl s itx content emb view file ephemeral)
       (\<lambda>_ s'. (Inr None, s'))"
| "respond_except rl itx content emb view file ephemeral e s =
     and_then (error s (''Error when responding to the interaction: '' @ str_exn e) True)
       (\<lambda>_ s'. (Inr None, s'))"

definition safe_respond ::
  "remote \<Rightarrow> state \<Rightarrow> interaction \<Rightarrow> string option \<Rightarrow> embed option \<Rightarrow> ui_view option \<Rightarrow>
   attachment option \<Rightarrow> bool \<Rightarrow> nat option outcome" where
  "safe_respond rl st itx content emb view file ephemeral =
     (case await rl st
             (Execute_request (Response_send_message itx (make_kwargs content emb view file ephemeral))
                callback_route [(''interaction_id'', interaction_id itx)])
      of (Inr r, s) \<Rightarrow> (Inr (Some r), s)
       | (Inl e, s) \<Rightarrow> respond_except rl itx content emb view file ephemeral e s)"

subsection \<open>Client message helpers\<close>

definition client ::
  "remote \<Rightarrow> state \<Rightarrow> target \<Rightarrow> string \<Rightarrow> string option \<Rightarrow> colour \<Rightarrow> nat \<Rightarrow> nat option outcome" where
  "client rl st ctx msg title color delete_after =
     (let e = \<lparr>e_title = title, e_color = color, e_description = msg, e_footer = None\<rparr>
      in case ctx of
           Context c \<Rightarrow>
             (let e' = e\<lparr>e_footer := Some (''Commande faites par '' @ author_display_name c,
                                            author_display_avatar c)\<rparr>
              in and_then (await rl st (Ctx_send c e' delete_after)) (\<lambda>m s. (Inr (Some m), s)))
         | Interaction i \<Rightarrow> safe_respond rl st i None (Some e) None None True)"

definition success ::
  "discord_Colour \<Rightarrow> remote \<Rightarrow> state \<Rightarrow> target \<Rightarrow> string \<Rightarrow> nat \<Rightarrow> nat option outcome" where
  "success lib rl st ctx msg delete_after =
     and_then (info st msg)
       (\<lambda>_ s. client rl s ctx msg (Some '':white_check_mark: Success'') (green lib) delete_after)"

definition failure ::
  "discord_Colour \<Rightarrow> remote \<Rightarrow> state \<Rightarrow> target \<Rightarrow> string \<Rightarrow> nat \<Rightarrow> bool \<Rightarrow> nat option outcome" where
  "failure lib rl st ctx msg delete_after stacktrace =
     and_then (error st msg stacktrace)
       (\<lambda>_ s. client rl s ctx msg (Some '':x: Error'') (red lib) delete_after)"

section \<open>\<^verbatim>\<open>dismob/colors.py\<close>\<close>

definition known_colors :: "string list" where
  "known_colors =
     [''teal'', ''dark_teal'', ''brand_green'', ''green'', ''dark_green'',
      ''blue'', ''dark_blue'', ''purple'', ''dark_purple'', ''magenta'',
      ''dark_magenta'', ''gold'', ''dark_gold'', ''orange'', ''dark_orange'',
      ''brand_red'', ''red'', ''dark_red'', ''lighter_grey'', ''lighter_gray'',
      ''dark_grey'', ''dark_gray'', ''light_grey'', ''light_gray'', ''darker_grey'',
      ''darker_gray'', ''og_blurple'', ''blurple'', ''greyple'', ''dark_theme'',
      ''fuchsia'', ''yellow'', ''dark_embed'', ''light_embed'', ''pink'', ''dark_pink'']"

subsection \<open>\<^verbatim>\<open>int(s, 16)\<close>\<close>

text \<open>
  The built-in parser as CPython implements it: white space is skipped at both ends,
  one sign is accepted, then the prefix \<^verbatim>\<open>0x\<close> or \<^verbatim>\<open>0X\<close> with one underscore after it, then
  digits with single underscores between them; anything else raises \<^verbatim>\<open>ValueError\<close>.
\<close>

definition int_isspace :: "char \<Rightarrow> bool" where
  "int_isspace c =
     (let n = (of_char c :: nat)
      in (9 \<le> n \<and> n \<le> 13) \<or> n = 32 \<or> n = 133 \<or> n = 160)"

definition digit_value :: "char \<Rightarrow> nat" where
  "digit_value c =
     (let n = (of_char c :: nat)
      in if 48 \<le> n \<and> n \<le> 57 then n - 48
         else if 97 \<le> n \<and> n \<le> 122 then n - 87
         else if 65 \<le> n \<and> n \<le> 90 then n - 55
         else 37)"

text \<open>The scan over digits and underscores: the value so far, the character scanned
  last, and what is left; \<open>None\<close> at a doubled underscore.\<close>

fun scan_digits :: "nat \<Rightarrow> char option \<Rightarrow> string \<Rightarrow> (nat \<times> char option \<times> string) option" where
  "scan_digits acc prev [] = Some (acc, prev, [])"
| "scan_digits acc prev (c # cs) =
     (if c = CHR ''_''
      then (if prev = Some (CHR ''_'') then None else scan_digits acc (Some c) cs)
      else if digit_value c < 16 then scan_digits (acc * 16 + digit_value c) (Some c) cs
      else Some (acc, prev, c # cs))"

definition skip_sign :: "string \<Rightarrow> bool \<times> string" where
  "skip_sign s =
     (case s of
        [] \<Rightarrow> (False, s)
      | c # cs \<Rightarrow> if c = CHR ''+'' then (False, cs)
                  else if c = CHR ''-'' then (True, cs) else (False, s))"

definition skip_prefix :: "string \<Rightarrow> string" where
  "skip_prefix s =
     (case s of
        a # b # cs \<Rightarrow>
          if a = CHR ''0'' \<and> (b = CHR ''x'' \<or> b = CHR ''X'')
          then (case cs of [] \<Rightarrow> cs | u # cs' \<Rightarrow> if u = CHR ''_'' then cs' else cs)
          else s
      | _ \<Rightarrow> s)"

definition invalid_literal :: "string \<Rightarrow> exn + int" where
  "invalid_literal s = Inl (ValueError (''invalid literal for int() with base 16: '' @ s))"

definition int_base16 :: "string \<Rightarrow> exn + int" where
  "int_base16 s =
     (let (negative, s2) = skip_sign (dropWhile int_isspace s);
          s3 = skip_prefix s2
      in if s3 = [] \<or> hd s3 = CHR ''_'' then invalid_literal s
         else (case scan_digits 0 None s3 of
                 None \<Rightarrow> invalid_literal s
               | Some (v, prev, rest) \<Rightarrow>
                   if prev = None \<or> prev = Some (CHR ''_'') \<or> dropWhile int_isspace rest \<noteq> []
                   then invalid_literal s
                   else Inr (if negative then - int v else int v)))"

subsection \<open>\<^verbatim>\<open>str_to_color\<close>\<close>

definition no_attribute :: "string \<Rightarrow> exn" where
  "no_attribute name =
     AttributeError (''type object '' @ [CHR 0x27] @ ''Colour'' @ [CHR 0x27]
                     @ '' has no attribute '' @ [CHR 0x27] @ name @ [CHR 0x27])"

definition getattr_Colour :: "discord_Colour \<Rightarrow> string \<Rightarrow> exn + colour" where
  "getattr_Colour lib name =
     (case classmethods lib name of
        None \<Rightarrow> Inl (no_attribute name)
      | Some c \<Rightarrow> Inr c)"

text \<open>The \<^verbatim>\<open>try\<close> block: \<open>Inr (Some c)\<close> is its \<^verbatim>\<open>return\<close>, \<open>Inr None\<close> falling off its
  end, and the string is the value of \<^verbatim>\<open>color_str\<close> when the block is left.\<close>

definition try_hex :: "string \<Rightarrow> (exn + colour option) \<times> string" where
  "try_hex color_str =
     (let color_str1 = (if color_str \<noteq> [] \<and> hd color_str = CHR ''#'' then tl color_str else color_str);
          color_str2 = (if length color_str1 = 3 then concat (map (\<lambda>c. [c, c]) color_str1)
                        else color_str1)
      in if length color_str2 = 6
         then (case int_base16 color_str2 of
                 Inl e \<Rightarrow> (Inl e, color_str2)
               | Inr v \<Rightarrow> (Inr (Some (Colour v)), color_str2))
         else (Inr None, color_str2))"

definition str_to_color :: "discord_Colour \<Rightarrow> state \<Rightarrow> string \<Rightarrow> colour outcome" where
  "str_to_color lib st color_str0 =
     (let color_str = py_strip color_str0;
          color_name = py_lower color_str
      in if color_name \<in> set known_colors
         then (getattr_Colour lib color_name, st)
         else (case try_hex color_str of
                 (Inr (Some c), _) \<Rightarrow> (Inr c, st)
               | (_, color_str') \<Rightarrow>
                   and_then (warning st (''Invalid color string '' @ [CHR 0x27] @ color_str' @ [CHR 0x27]
                                          @ '', using default color (blurple).''))
                     (\<lambda>_ s. (Inr (blurple lib), s))))"

section \<open>\<^verbatim>\<open>dismob/utils.py\<close>\<close>

datatype view_types = One_type string | Type_tuple "string list"

definition isinstance :: "ui_view \<Rightarrow> view_types \<Rightarrow> bool" where
  "isinstance v vt =
     (case vt of
        One_type c \<Rightarrow> c \<in> set (view_mro v)
      | Type_tuple cs \<Rightarrow> list_ex (\<lambda>c. c \<in> set (view_mro v)) cs)"

text \<open>\<^verbatim>\<open>str\<close> of a class and of a tuple of classes, as the f-string prints them.\<close>

definition repr_class :: "string \<Rightarrow> string" where
  "repr_class c = ''<class '' @ [CHR 0x27] @ c @ [CHR 0x27] @ ''>''"

fun join_comma :: "string list \<Rightarrow> string" where
  "join_comma [] = []"
| "join_comma [x] = x"
| "join_comma (x # y # ys) = x @ '', '' @ join_comma (y # ys)"

fun str_view_types :: "view_types \<Rightarrow> string" where
  "str_view_types (One_type c) = repr_class c"
| "str_view_types (Type_tuple [c]) = ''('' @ repr_class c @ '',)''"
| "str_view_types (Type_tuple cs) = ''('' @ join_comma (map repr_class cs) @ '')''"

text \<open>\<^verbatim>\<open>list.remove(x)\<close>: the first element equal to \<open>x\<close> goes; \<^verbatim>\<open>ValueError\<close> when there is none.\<close>

fun list_remove :: "'a \<Rightarrow> 'a list \<Rightarrow> exn + 'a list" where
  "list_remove x [] = Inl (ValueError ''list.remove(x): x not in list'')"
| "list_remove x (y # ys) =
     (if x = y then Inr ys
      else (case list_remove x ys of Inl e \<Rightarrow> Inl e | Inr ys' \<Rightarrow> Inr (y # ys')))"

text \<open>
  The bot, as far as \<^verbatim>\<open>clear_views\<close> looks at it. The source types it as a
  \<^verbatim>\<open>discord.Client\<close>, where \<^verbatim>\<open>persistent_views\<close> is a read-only property: each access
  builds a new list of the persistent views that the client's view store holds. The
  store is the state of the bot; \<open>persistent_views\<close> is the list one access returns.
\<close>

record bot =
  view_store :: "ui_view list"

definition persistent_views :: "bot \<Rightarrow> ui_view list" where
  "persistent_views b = view_store b"

text \<open>The first loop, with \<^verbatim>\<open>views_to_remove\<close> as accumulator.\<close>

fun collect_views :: "view_types \<Rightarrow> ui_view list \<Rightarrow> ui_view list \<Rightarrow> ui_view list" where
  "collect_views vt views_to_remove [] = views_to_remove"
| "collect_views vt views_to_remove (view # rest) =
     collect_views vt (if isinstance view vt then views_to_remove @ [view] else views_to_remove) rest"

text \<open>The second loop. Each round reads \<^verbatim>\<open>bot.persistent_views\<close> anew and calls \<^verbatim>\<open>remove\<close>
  on the list that access returned; the shortened list is referred to by nothing and
  the store is not written.\<close>

fun remove_views :: "ui_view list \<Rightarrow> bot \<Rightarrow> exn + unit" where
  "remove_views [] b = Inr ()"
| "remove_views (view # rest) b =
     (case list_remove view (persistent_views b) of
        Inl e \<Rightarrow> Inl e
      | Inr shortened \<Rightarrow> remove_views rest b)"

text \<open>The bot is returned with the outcome, as it is when the function is left.\<close>

definition clear_views :: "state \<Rightarrow> bot \<Rightarrow> view_types option \<Rightarrow> unit outcome \<times> bot" where
  "clear_views st b view_types =
     (case view_types of
        None \<Rightarrow> (warning st ''No view types provided to clear_views; skipping.'', b)
      | Some vt \<Rightarrow>
          (let views_to_remove = collect_views vt [] (persistent_views b)
           in case remove_views views_to_remove b of
                Inl e \<Rightarrow> ((Inl e, st), b)
              | Inr _ \<Rightarrow>
                  (info st (''Removed '' @ str_nat (length views_to_remove)
                            @ '' persistent views of types '' @ str_view_types vt), b)))"

section \<open>Values for concrete evaluation\<close>

text \<open>The state when the modules have been imported and nothing has run: the manager
  holds no logger, the root logger has its default level, the global is unset.\<close>

definition fresh_state :: state where
  "fresh_state =
     \<lparr>loggers = (\<lambda>_. new_logger ''root'')
                  (''root'' := \<lparr>level = 30, handlers = [], propagate = True, parent = ''root''\<rparr>),
      created = {}, logger = None, records = [], requests = []\<rparr>"

text \<open>The state after \<^verbatim>\<open>setup_logger()\<close> with its default arguments.\<close>

definition ready_state :: state where
  "ready_state =
     (case setup_logger fresh_state ''DungeonBot'' ''INFO'' ''INFO'' of
        None \<Rightarrow> fresh_state
      | Some st \<Rightarrow> st)"

text \<open>An instance of the library parameter.\<close>

definition sample_Colour :: discord_Colour where
  "sample_Colour =
     \<lparr>blurple = Colour 0x5865F2, green = Colour 0x2ECC71, red = Colour 0xE74C3C,
      classmethods = map_of [(''teal'', Colour 0x1ABC9C), (''blurple'', Colour 0x5865F2),
                             (''green'', Colour 0x2ECC71), (''red'', Colour 0xE74C3C)]\<rparr>"

definition general_channel :: text_channel where
  "general_channel = \<lparr>channel_id = 1, channel_name = ''general''\<rparr>"

definition an_interaction :: interaction where
  "an_interaction = \<lparr>interaction_id = 11, application_id = 22\<rparr>"

definition a_context :: cmd_context where
  "a_context = \<lparr>context_id = 5, author_display_name = ''ann'', author_display_avatar = ''ann.png''\<rparr>"

text \<open>A bot with three persistent views, two of one class.\<close>

definition a_view :: "nat \<Rightarrow> string \<Rightarrow> ui_view" where
  "a_view i cls = \<lparr>view_id = i, view_mro = [cls, ''discord.ui.view.View'', ''builtins.object'']\<rparr>"

definition a_bot :: bot where
  "a_bot = \<lparr>view_store = [a_view 1 ''bot.TicketView'', a_view 2 ''bot.RoleView'',
                                 a_view 3 ''bot.TicketView'']\<rparr>"

text \<open>An outside that refuses every call for lack of permission.\<close>

definition forbidding_remote :: remote where
  "forbidding_remote call = Inl (Forbidden ''403 Forbidden'')"

text \<open>An outside that accepts every call.\<close>

definition accepting_remote :: remote where
  "accepting_remote call = Inr 7"

text \<open>An outside where the interaction has been responded to already: the initial
  response raises \<^verbatim>\<open>InteractionResponded\<close>, everything else is accepted.\<close>

fun responded_remote :: remote where
  "responded_remote (Execute_request (Response_send_message i kw) route params) =
     Inl (InteractionResponded ''This interaction has already been responded to before'')"
| "responded_remote call = Inr 7"

section \<open>Vocabulary of the properties\<close>

text \<open>The error-level record that \<^verbatim>\<open>error(msg)\<close> hands to the logger named \<open>n\<close>.\<close>

definition error_record :: "string \<Rightarrow> string \<Rightarrow> log_record" where
  "error_record n msg =
     \<lparr>rec_name = n, rec_levelno = ERROR, rec_msg = msg, rec_stack_info = True\<rparr>"

text \<open>What the error entry of a failed channel send says: the channel by name for a
  permission denial and for not-found, the failure's own description otherwise.\<close>

definition send_error_text :: "text_channel \<Rightarrow> exn \<Rightarrow> string" where
  "send_error_text channel e =
     (case e of
        Forbidden _ \<Rightarrow> ''Bot has not the permission to send messages in '' @ channel_name channel
      | NotFound _ \<Rightarrow> ''Channel '' @ channel_name channel @ '' not found''
      | _ \<Rightarrow> ''Error when sending message: '' @ str_exn e)"

text \<open>What a call added: the number of log entries appended to those of the state it
  started in, and the requests appended; \<open>None\<close> if the earlier ones did not stay as
  they were.\<close>

definition entries_added :: "state \<Rightarrow> 'a outcome \<Rightarrow> nat option" where
  "entries_added st out =
     (if take (length (records st)) (records (snd out)) = records st
      then Some (length (records (snd out)) - length (records st)) else None)"

definition requests_added :: "state \<Rightarrow> 'a outcome \<Rightarrow> net_call list option" where
  "requests_added st out =
     (if take (length (requests st)) (requests (snd out)) = requests st
      then Some (drop (length (requests st)) (requests (snd out))) else None)"

text \<open>The request of an initial response: the callback route, keyed by the interaction's
  identifier. The request of a followup: the webhook route, keyed by the identifier of
  the application that owns the interaction.\<close>

definition respond_call ::
  "interaction \<Rightarrow> string option \<Rightarrow> embed option \<Rightarrow> ui_view option \<Rightarrow> attachment option \<Rightarrow>
   bool \<Rightarrow> net_call" where
  "respond_call itx content emb view file ephemeral =
     Execute_request (Response_send_message itx (make_kwargs content emb view file ephemeral))
       ''POST /interactions/{interaction_id}/{interaction_token}/callback''
       [(''interaction_id'', interaction_id itx)]"

definition followup_call ::
  "interaction \<Rightarrow> string option \<Rightarrow> embed option \<Rightarrow> ui_view option \<Rightarrow> attachment option \<Rightarrow>
   bool \<Rightarrow> net_call" where
  "followup_call itx content emb view file ephemeral =
     Execute_request (Followup_send itx (make_kwargs content emb view file ephemeral))
       ''POST /webhooks/{application_id}/{interaction_token}''
       [(''application_id'', application_id itx)]"

text \<open>The distinguished condition: the response slot of the interaction is consumed.\<close>

fun already_responded :: "exn + nat \<Rightarrow> bool" where
  "already_responded (Inl (InteractionResponded m)) = True"
| "already_responded r = False"

text \<open>The embed of a notification, before the footer that a command context adds.\<close>

definition notice :: "string \<Rightarrow> colour \<Rightarrow> string \<Rightarrow> embed" where
  "notice title color msg =
     \<lparr>e_title = Some title, e_color = color, e_description = msg, e_footer = None\<rparr>"

definition with_footer :: "cmd_context \<Rightarrow> embed \<Rightarrow> embed" where
  "with_footer c e =
     e\<lparr>e_footer := Some (''Commande faites par '' @ author_display_name c, author_display_avatar c)\<rparr>"

text \<open>The severity a symbolic name stands for: names are matched without regard to case,
  and an unknown name counts as informational. The two handlers of an initialization,
  by their levels.\<close>

definition level_of :: "string \<Rightarrow> nat" where
  "level_of name = dict_get getLevelNamesMapping (py_upper name) INFO"

definition file_handler_at :: "nat \<Rightarrow> handler" where
  "file_handler_at lvl =
     \<lparr>hkind = FileHandler, hlevel = lvl, hformatter = Formatter file_fmt datefmt\<rparr>"

definition console_handler_at :: "nat \<Rightarrow> handler" where
  "console_handler_at lvl =
     \<lparr>hkind = StreamHandler, hlevel = lvl, hformatter = ColorFormatter console_fmt datefmt\<rparr>"

text \<open>Hexadecimal digits and the number a string of them denotes; a three-digit form
  with each digit doubled; the string that \<^verbatim>\<open>str_to_color\<close> hands to the integer parser
  (its input trimmed, without one leading \<^verbatim>\<open>#\<close>, doubled when three characters long);
  and the warning it logs.\<close>

definition hex_digits :: "(char \<times> nat) list" where
  "hex_digits =
     [(CHR ''0'', 0), (CHR ''1'', 1), (CHR ''2'', 2), (CHR ''3'', 3), (CHR ''4'', 4),
      (CHR ''5'', 5), (CHR ''6'', 6), (CHR ''7'', 7), (CHR ''8'', 8), (CHR ''9'', 9),
      (CHR ''a'', 10), (CHR ''b'', 11), (CHR ''c'', 12), (CHR ''d'', 13), (CHR ''e'', 14),
      (CHR ''f'', 15), (CHR ''A'', 10), (CHR ''B'', 11), (CHR ''C'', 12), (CHR ''D'', 13),
      (CHR ''E'', 14), (CHR ''F'', 15)]"

definition is_hex :: "char \<Rightarrow> bool" where
  "is_hex c = (map_of hex_digits c \<noteq> None)"

definition hex_digit :: "char \<Rightarrow> nat" where
  "hex_digit c = (case map_of hex_digits c of None \<Rightarrow> 0 | Some v \<Rightarrow> v)"

definition hex_value :: "string \<Rightarrow> nat" where
  "hex_value s = foldl (\<lambda>a d. 16 * a + hex_digit d) 0 s"

definition doubled :: "string \<Rightarrow> string" where
  "doubled s = concat (map (\<lambda>c. [c, c]) s)"

definition hex_candidate :: "string \<Rightarrow> string" where
  "hex_candidate s =
     (let t = py_strip s;
          u = (case t of [] \<Rightarrow> t | c # cs \<Rightarrow> if c = CHR ''#'' then cs else t)
      in if length u = 3 then doubled u else u)"

definition invalid_color_warning :: "string \<Rightarrow> string \<Rightarrow> log_record" where
  "invalid_color_warning n shown =
     \<lparr>rec_name = n, rec_levelno = WARNING,
      rec_msg = ''Invalid color string '' @ [CHR 0x27] @ shown @ [CHR 0x27]
                @ '', using default color (blurple).'',
      rec_stack_info = False\<rparr>"

definition hexish :: "char \<Rightarrow> bool" where
  "hexish c = (is_hex c \<or> c = CHR ''#'')"

section \<open>The logging functions\<close>

lemma log_Some:
  assumes "logger st = Some n"
  shows "debug st msg = (Inr (), st\<lparr>records := records st @
           [\<lparr>rec_name = n, rec_levelno = DEBUG, rec_msg = msg, rec_stack_info = False\<rparr>]\<rparr>)"
    and "info st msg = (Inr (), st\<lparr>records := records st @
           [\<lparr>rec_name = n, rec_levelno = INFO, rec_msg = msg, rec_stack_info = False\<rparr>]\<rparr>)"
    and "warning st msg = (Inr (), st\<lparr>records := records st @
           [\<lparr>rec_name = n, rec_levelno = WARNING, rec_msg = msg, rec_stack_info = False\<rparr>]\<rparr>)"
    and "error st msg tr = (Inr (), st\<lparr>records := records st @
           [\<lparr>rec_name = n, rec_levelno = ERROR, rec_msg = msg, rec_stack_info = tr\<rparr>]\<rparr>)"
  using assms
  by (simp_all add: debug_def info_def warning_def error_def require_logger_def logger_call_def)

lemmas char_eval = char_of_def bit_Suc_0_iff

subsection \<open>The walk of \<^verbatim>\<open>hasHandlers\<close>\<close>

lemma walk_own: "fst (link c) \<Longrightarrow> has_handlers_from link c = Some True"
  by (cases "link c") (subst has_handlers_from.simps, simp)

lemma walk_root: "\<not> fst (link ''root'') \<Longrightarrow> has_handlers_from link ''root'' = Some False"
  by (cases "link ''root''") (subst has_handlers_from.simps, simp)

lemma walk_parent:
  "\<not> fst (link c) \<Longrightarrow> fst (snd (link c)) \<Longrightarrow> c \<noteq> ''root'' \<Longrightarrow>
   has_handlers_from link c = has_handlers_from link (snd (snd (link c)))"
  by (cases "link c") (subst has_handlers_from.simps, simp)

lemma chain_link_setLevel [simp]: "chain_link (setLevel st n l) = chain_link st"
  by (auto simp: chain_link_def setLevel_def fun_eq_iff)

lemma chain_link_logger_update [simp]: "chain_link (st\<lparr>logger := g\<rparr>) = chain_link st"
  by (simp add: chain_link_def fun_eq_iff)

lemma hasHandlers_setLevel [simp]: "hasHandlers (setLevel st n l) m = hasHandlers st m"
  by (simp add: hasHandlers_def)

lemma hasHandlers_logger_update [simp]: "hasHandlers (st\<lparr>logger := g\<rparr>) m = hasHandlers st m"
  by (simp add: hasHandlers_def)

lemma hasHandlers_own: "handlers (loggers st n) \<noteq> [] \<Longrightarrow> hasHandlers st n = Some True"
  by (simp add: hasHandlers_def walk_own chain_link_def)

lemma no_handlers: "hasHandlers st n = Some False \<Longrightarrow> handlers (loggers st n) = []"
  using hasHandlers_own [of st n] by auto

subsection \<open>\<^verbatim>\<open>setLevel\<close>, \<^verbatim>\<open>addHandler\<close> and \<^verbatim>\<open>getLogger\<close>\<close>

lemma logger_setLevel [simp]: "logger (setLevel st n l) = logger st"
  by (simp add: setLevel_def)

lemma logger_addHandler [simp]: "logger (addHandler st n h) = logger st"
  by (simp add: addHandler_def)

lemma created_setLevel [simp]: "created (setLevel st n l) = created st"
  by (simp add: setLevel_def)

lemma created_addHandler [simp]: "created (addHandler st n h) = created st"
  by (simp add: addHandler_def)

lemma level_setLevel [simp]: "level (loggers (setLevel st n l) n) = l"
  by (simp add: setLevel_def)

lemma level_addHandler [simp]: "level (loggers (addHandler st n h) m) = level (loggers st m)"
  by (simp add: addHandler_def)

lemma handlers_setLevel [simp]: "handlers (loggers (setLevel st n l) m) = handlers (loggers st m)"
  by (simp add: setLevel_def)

lemma handlers_addHandler [simp]:
  "handlers (loggers (addHandler st n h) n) = handlers (loggers st n) @ [h]"
  by (simp add: addHandler_def)

lemma setLevel_same: "level (loggers st n) = l \<Longrightarrow> setLevel st n l = st"
  by (auto simp: setLevel_def fun_eq_iff intro!: state.equality)

lemma logger_update_same: "logger st = g \<Longrightarrow> st\<lparr>logger := g\<rparr> = st"
  by (auto intro!: state.equality)

lemma getLogger_key: "fst (getLogger st name) = logger_key name"
  by (simp add: getLogger_def Let_def)

lemma getLogger_known:
  "logger_key name = ''root'' \<or> logger_key name \<in> created st \<Longrightarrow>
   getLogger st name = (logger_key name, st)"
  by (auto simp: getLogger_def Let_def)

lemma getLogger_created:
  "logger_key name = ''root'' \<or> logger_key name \<in> created (snd (getLogger st name))"
  by (auto simp: getLogger_def Let_def)

subsection \<open>The two branches of \<^verbatim>\<open>setup_logger\<close>\<close>

lemma setup_logger_present:
  "hasHandlers (snd (getLogger st name)) (logger_key name) = Some True \<Longrightarrow>
   setup_logger st name f c =
     Some (setLevel ((snd (getLogger st name))\<lparr>logger := Some (logger_key name)\<rparr>) (logger_key name)
             (min (level_of f) (level_of c)))"
proof -
  assume h: "hasHandlers (snd (getLogger st name)) (logger_key name) = Some True"
  obtain n st0 where g: "getLogger st name = (n, st0)" by (cases "getLogger st name")
  with getLogger_key [of st name] have n: "n = logger_key name" by simp
  show ?thesis using h by (simp add: setup_logger_def Let_def level_of_def g n)
qed

lemma setup_logger_absent:
  "hasHandlers (snd (getLogger st name)) (logger_key name) = Some False \<Longrightarrow>
   setup_logger st name f c =
     Some (addHandler
       (addHandler
          (setLevel ((snd (getLogger st name))\<lparr>logger := Some (logger_key name)\<rparr>) (logger_key name)
             (min (level_of f) (level_of c)))
          (logger_key name) (file_handler_at (level_of f)))
       (logger_key name) (console_handler_at (level_of c)))"
proof -
  assume h: "hasHandlers (snd (getLogger st name)) (logger_key name) = Some False"
  obtain n st0 where g: "getLogger st name = (n, st0)" by (cases "getLogger st name")
  with getLogger_key [of st name] have n: "n = logger_key name" by simp
  show ?thesis
    using h
    by (simp add: setup_logger_def Let_def level_of_def file_handler_at_def console_handler_at_def g n)
qed

lemma setup_logger_cases:
  assumes "setup_logger st name f c = Some st1"
  shows "logger st1 = Some (logger_key name)"
    and "logger_key name = ''root'' \<or> logger_key name \<in> created st1"
    and "hasHandlers st1 (logger_key name) = Some True"
proof -
  let ?n = "logger_key name" and ?st0 = "snd (getLogger st name)"
  from assms obtain has where h: "hasHandlers ?st0 ?n = Some has"
    using getLogger_key [of st name]
    by (auto simp: setup_logger_def Let_def split: prod.splits option.splits)
  show "logger st1 = Some ?n"
    using assms h setup_logger_present [of st name f c] setup_logger_absent [of st name f c]
    by (cases has) auto
  show "?n = ''root'' \<or> ?n \<in> created st1"
    using assms h setup_logger_present [of st name f c] setup_logger_absent [of st name f c]
      getLogger_created [of name st]
    by (cases has) auto
  show "hasHandlers st1 ?n = Some True"
    using assms h setup_logger_present [of st name f c] setup_logger_absent [of st name f c]
    by (cases has) (auto simp: hasHandlers_own)
qed

text \<open>Whatever the first call found, a call that follows it under the same name only sets
  the logger's level.\<close>

lemma setup_logger_again:
  assumes "setup_logger st name f1 c1 = Some st1"
  shows "setup_logger st1 name f2 c2 =
           Some (setLevel st1 (logger_key name) (min (level_of f2) (level_of c2)))"
proof -
  note c = setup_logger_cases [OF assms]
  have g: "getLogger st1 name = (logger_key name, st1)"
    by (rule getLogger_known [OF c(2)])
  show ?thesis
    using setup_logger_present [of st1 name f2 c2] c(1,3)
    by (simp add: g logger_update_same)
qed

lemma level_of_evals:
  "level_of ''INFO'' = 20" "level_of ''debug'' = 10" "level_of ''Error'' = 40"
  "level_of ''ERROR'' = 40" "level_of ''verbose'' = 20"
  by (simp_all add: level_of_def dict_get_def getLevelNamesMapping_def py_upper_def
        py_upper_char_def INFO_def char_eval)


subsection \<open>The default logger\<close>

lemma key_DungeonBot: "logger_key ''DungeonBot'' = ''DungeonBot''"
  by (simp add: logger_key_def)

lemma fresh_no_handlers:
  "hasHandlers (snd (getLogger fresh_state ''DungeonBot'')) (logger_key ''DungeonBot'') = Some False"
proof -
  let ?st0 = "snd (getLogger fresh_state ''DungeonBot'')"
  have own: "chain_link ?st0 ''DungeonBot'' = (False, True, ''root'')"
    by (simp add: chain_link_def getLogger_def Let_def logger_key_def fresh_state_def
          fixupParents_def new_logger_def)
  have root: "\<not> fst (chain_link ?st0 ''root'')"
    by (simp add: chain_link_def getLogger_def Let_def logger_key_def fresh_state_def
          fixupChildren_def)
  have "has_handlers_from (chain_link ?st0) ''DungeonBot'' =
        has_handlers_from (chain_link ?st0) ''root''"
    using walk_parent [of "chain_link ?st0" "''DungeonBot''"] by (simp add: own)
  also have "\<dots> = Some False" by (rule walk_root, rule root)
  finally show ?thesis by (simp add: hasHandlers_def key_DungeonBot)
qed

lemma setup_fresh: "setup_logger fresh_state ''DungeonBot'' ''INFO'' ''INFO'' = Some ready_state"
  by (simp add: ready_state_def setup_logger_absent [OF fresh_no_handlers])

lemma logger_ready_state: "logger ready_state = Some ''DungeonBot''"
  using setup_logger_cases(1) [OF setup_fresh] by (simp add: key_DungeonBot)

text \<open>C7: emitting at any of the four levels while the global logger is unset raises the
  configuration error (a \<^verbatim>\<open>RuntimeError\<close>) to the caller and leaves the state as it was:
  no record is handed to any logger, and the method call on the absent logger, which
  would raise \<^verbatim>\<open>AttributeError\<close>, is not reached.\<close>

theorem emit_before_setup_raises:
  "logger st = None \<Longrightarrow>
     debug st msg = (Inl not_set_up, st) \<and> info st msg = (Inl not_set_up, st) \<and>
     warning st msg = (Inl not_set_up, st) \<and> error st msg tr = (Inl not_set_up, st)"
  by (simp add: debug_def info_def warning_def error_def require_logger_def)

theorem emit_before_setup_raises_witness:
  "logger fresh_state = None \<and>
   debug fresh_state ''m'' = (Inl not_set_up, fresh_state) \<and>
   info fresh_state ''m'' = (Inl not_set_up, fresh_state) \<and>
   warning fresh_state ''m'' = (Inl not_set_up, fresh_state) \<and>
   error fresh_state ''m'' True = (Inl not_set_up, fresh_state)"
  using emit_before_setup_raises [of fresh_state "''m''" True]
  by (simp add: fresh_state_def)

section \<open>The dispatcher, case by case\<close>

lemma send_message_except_Some:
  "logger s = Some n \<Longrightarrow>
   send_message_except channel e s =
     (Inr None, s\<lparr>records := records s @ [error_record n (send_error_text channel e)]\<rparr>)"
  by (cases e) (simp_all add: log_Some and_then_def send_error_text_def error_record_def)

lemma safe_send_message_Inl:
  "logger st = Some n \<Longrightarrow> rl (Safe_send channel content emb view file) = Inl e \<Longrightarrow>
   safe_send_message rl st channel content emb view file =
     (Inr None,
      st\<lparr>requests := requests st @ [Safe_send channel content emb view file],
         records := records st @ [error_record n (send_error_text channel e)]\<rparr>)"
  by (simp add: safe_send_message_def await_def and_then_def send_message_except_Some)

lemma safe_send_message_Inr:
  "logger st = Some n \<Longrightarrow> rl (Safe_send channel content emb view file) = Inr m \<Longrightarrow>
   safe_send_message rl st channel content emb view file =
     (Inr (Some m),
      st\<lparr>requests := requests st @ [Safe_send channel content emb view file],
         records := records st @
           [\<lparr>rec_name = n, rec_levelno = INFO, rec_msg = ''Message sent in '' @ channel_name channel,
             rec_stack_info = False\<rparr>]\<rparr>)"
  by (simp add: safe_send_message_def await_def and_then_def log_Some)

lemma safe_followup_Inr:
  "rl (followup_call itx content emb view file eph) = Inr r \<Longrightarrow>
   safe_followup rl st itx content emb view file eph =
     (Inr (Some r), st\<lparr>requests := requests st @ [followup_call itx content emb view file eph]\<rparr>)"
  by (simp add: safe_followup_def await_def followup_call_def followup_route_def)

lemma safe_followup_Inl:
  "logger st = Some n \<Longrightarrow> rl (followup_call itx content emb view file eph) = Inl e \<Longrightarrow>
   safe_followup rl st itx content emb view file eph =
     (Inr None, st\<lparr>requests := requests st @ [followup_call itx content emb view file eph],
                   records := records st @ [error_record n (''Error during the followup: '' @ str_exn e)]\<rparr>)"
  by (simp add: safe_followup_def await_def followup_call_def followup_route_def and_then_def log_Some error_record_def)

lemma safe_respond_Inr:
  "rl (respond_call itx content emb view file eph) = Inr r \<Longrightarrow>
   safe_respond rl st itx content emb view file eph =
     (Inr (Some r), st\<lparr>requests := requests st @ [respond_call itx content emb view file eph]\<rparr>)"
  by (simp add: safe_respond_def await_def respond_call_def callback_route_def)

lemma safe_respond_responded:
  "rl (respond_call itx content emb view file eph) = Inl (InteractionResponded m) \<Longrightarrow>
   safe_respond rl st itx content emb view file eph =
     and_then (safe_followup rl (st\<lparr>requests := requests st @ [respond_call itx content emb view file eph]\<rparr>)
                 itx content emb view file eph) (\<lambda>_ s'. (Inr None, s'))"
  by (simp add: safe_respond_def await_def respond_call_def callback_route_def)

lemma safe_respond_Inl:
  "logger st = Some n \<Longrightarrow> rl (respond_call itx content emb view file eph) = Inl e \<Longrightarrow>
   \<not> already_responded (Inl e) \<Longrightarrow>
   safe_respond rl st itx content emb view file eph =
     (Inr None, st\<lparr>requests := requests st @ [respond_call itx content emb view file eph],
                   records := records st @ [error_record n (''Error when responding to the interaction: '' @ str_exn e)]\<rparr>)"
  by (cases e) (simp_all add: safe_respond_def await_def respond_call_def callback_route_def and_then_def log_Some error_record_def)

lemma already_responded_iff: "already_responded r \<longleftrightarrow> (\<exists>m. r = Inl (InteractionResponded m))"
  by (cases r rule: already_responded.cases) simp_all

lemma safe_followup_no_raise:
  "logger st = Some n \<Longrightarrow> \<not> isl (fst (safe_followup rl st itx content emb view file eph))"
  by (cases "rl (followup_call itx content emb view file eph)")
     (simp_all add: safe_followup_Inl safe_followup_Inr)

lemma safe_respond_no_raise:
  assumes "logger st = Some n"
  shows "\<not> isl (fst (safe_respond rl st itx content emb view file eph))"
proof (cases "rl (respond_call itx content emb view file eph)")
  case (Inr r)
  then show ?thesis by (simp add: safe_respond_Inr)
next
  case (Inl e)
  show ?thesis
  proof (cases "already_responded (Inl e)")
    case False
    with Inl assms show ?thesis by (simp add: safe_respond_Inl)
  next
    case True
    then obtain m where e: "e = InteractionResponded m"
      by (auto simp: already_responded_iff)
    let ?st1 = "st\<lparr>requests := requests st @ [respond_call itx content emb view file eph]\<rparr>"
    have "logger ?st1 = Some n" using assms by simp
    from safe_followup_no_raise [OF this]
    have "\<not> isl (fst (safe_followup rl ?st1 itx content emb view file eph))" .
    then show ?thesis using Inl e
      by (cases "safe_followup rl ?st1 itx content emb view file eph")
         (auto simp: safe_respond_responded and_then_def split: sum.splits)
  qed
qed

text \<open>Without a logger the broad handler of \<^verbatim>\<open>safe_send_message\<close> does not swallow the
  configuration error: the handler logs too, and raises it again.\<close>

lemma send_message_except_before_setup:
  "logger s = None \<Longrightarrow> send_message_except channel e s = (Inl not_set_up, s)"
  by (cases e) (simp_all add: error_def require_logger_def and_then_def)

lemma safe_send_message_before_setup:
  "logger st = None \<Longrightarrow>
   safe_send_message rl st channel content emb view file =
     (Inl not_set_up, st\<lparr>requests := requests st @ [Safe_send channel content emb view file]\<rparr>)"
  by (cases "rl (Safe_send channel content emb view file)")
     (simp_all add: safe_send_message_def await_def and_then_def info_def require_logger_def
        send_message_except_before_setup)

lemma client_Context:
  "client rl st (Context c) msg (Some title) color d =
     (case rl (Ctx_send c (with_footer c (notice title color msg)) d) of
        Inl e \<Rightarrow> Inl e | Inr m \<Rightarrow> Inr (Some m),
      st\<lparr>requests := requests st @ [Ctx_send c (with_footer c (notice title color msg)) d]\<rparr>)"
  by (simp add: client_def await_def and_then_def with_footer_def notice_def Let_def split: sum.splits)

lemma client_Interaction:
  "client rl st (Interaction i) msg (Some title) color d =
     safe_respond rl st i None (Some (notice title color msg)) None None True"
  by (simp add: client_def notice_def)

lemma dispatcher_effects:
  "logger st = Some n \<Longrightarrow>
   (\<exists>entry. records (snd (safe_send_message rl st channel content emb view file)) = records st @ [entry]) \<and>
   requests (snd (safe_send_message rl st channel content emb view file)) =
     requests st @ [Safe_send channel content emb view file] \<and>
   requests (snd (safe_followup rl st itx content emb view file eph)) =
     requests st @ [followup_call itx content emb view file eph] \<and>
   (if isl (rl (followup_call itx content emb view file eph))
    then \<exists>entry. records (snd (safe_followup rl st itx content emb view file eph)) = records st @ [entry]
    else records (snd (safe_followup rl st itx content emb view file eph)) = records st) \<and>
   (if already_responded (rl (respond_call itx content emb view file eph))
    then requests (snd (safe_respond rl st itx content emb view file eph)) =
           requests st @ [respond_call itx content emb view file eph,
                          followup_call itx content emb view file eph] \<and>
         (if isl (rl (followup_call itx content emb view file eph))
          then \<exists>entry. records (snd (safe_respond rl st itx content emb view file eph)) = records st @ [entry]
          else records (snd (safe_respond rl st itx content emb view file eph)) = records st)
    else requests (snd (safe_respond rl st itx content emb view file eph)) =
           requests st @ [respond_call itx content emb view file eph] \<and>
         (if isl (rl (respond_call itx content emb view file eph))
          then \<exists>entry. records (snd (safe_respond rl st itx content emb view file eph)) = records st @ [entry]
          else records (snd (safe_respond rl st itx content emb view file eph)) = records st))"
proof -
  assume lg: "logger st = Some n"
  let ?st1 = "st\<lparr>requests := requests st @ [respond_call itx content emb view file eph]\<rparr>"
  have lg1: "logger ?st1 = Some n" using lg by simp
  have send: "(\<exists>entry. records (snd (safe_send_message rl st channel content emb view file)) = records st @ [entry]) \<and>
     requests (snd (safe_send_message rl st channel content emb view file)) =
       requests st @ [Safe_send channel content emb view file]"
    by (cases "rl (Safe_send channel content emb view file)")
       (simp_all add: safe_send_message_Inl [OF lg] safe_send_message_Inr [OF lg])
  have fol: "requests (snd (safe_followup rl s itx content emb view file eph)) =
       requests s @ [followup_call itx content emb view file eph] \<and>
     (if isl (rl (followup_call itx content emb view file eph))
      then \<exists>entry. records (snd (safe_followup rl s itx content emb view file eph)) = records s @ [entry]
      else records (snd (safe_followup rl s itx content emb view file eph)) = records s)"
    if "logger s = Some n" for s
    by (cases "rl (followup_call itx content emb view file eph)")
       (simp_all add: safe_followup_Inl [OF that] safe_followup_Inr)
  have resp: "(if already_responded (rl (respond_call itx content emb view file eph))
    then requests (snd (safe_respond rl st itx content emb view file eph)) =
           requests st @ [respond_call itx content emb view file eph,
                          followup_call itx content emb view file eph] \<and>
         (if isl (rl (followup_call itx content emb view file eph))
          then \<exists>entry. records (snd (safe_respond rl st itx content emb view file eph)) = records st @ [entry]
          else records (snd (safe_respond rl st itx content emb view file eph)) = records st)
    else requests (snd (safe_respond rl st itx content emb view file eph)) =
           requests st @ [respond_call itx content emb view file eph] \<and>
         (if isl (rl (respond_call itx content emb view file eph))
          then \<exists>entry. records (snd (safe_respond rl st itx content emb view file eph)) = records st @ [entry]
          else records (snd (safe_respond rl st itx content emb view file eph)) = records st))"
  proof (cases "already_responded (rl (respond_call itx content emb view file eph))")
    case True
    then obtain m where r: "rl (respond_call itx content emb view file eph) = Inl (InteractionResponded m)"
      by (auto simp: already_responded_iff)
    have snd_eq: "snd (safe_respond rl st itx content emb view file eph) =
                  snd (safe_followup rl ?st1 itx content emb view file eph)"
      using safe_followup_no_raise [OF lg1, of rl itx content emb view "file" eph]
      by (cases "safe_followup rl ?st1 itx content emb view file eph")
         (auto simp: safe_respond_responded [of rl, OF r] and_then_def split: sum.splits)
    show ?thesis using True fol [OF lg1] by (auto simp: snd_eq split: if_splits)
  next
    case False
    show ?thesis
    proof (cases "rl (respond_call itx content emb view file eph)")
      case (Inr r)
      then show ?thesis using False by (simp add: safe_respond_Inr)
    next
      case (Inl e)
      then show ?thesis using False by (simp add: safe_respond_Inl [OF lg])
    qed
  qed
  from send fol [OF lg] resp show ?thesis by simp
qed


section \<open>Properties of the dispatcher\<close>

text \<open>C1: on an interaction whose response slot is consumed, \<^verbatim>\<open>safe_respond\<close> hands the
  same payload to the followup request and logs no error, but it does not return what
  the followup returned: the followup yields the handle 7, \<^verbatim>\<open>safe_followup\<close> called
  directly returns it, and \<^verbatim>\<open>safe_respond\<close> returns \<^verbatim>\<open>None\<close>.\<close>

theorem respond_fallback_drops_result:
  "fst (safe_respond responded_remote ready_state an_interaction (Some ''done'') None None None False)
     = Inr None \<and>
   fst (safe_followup responded_remote ready_state an_interaction (Some ''done'') None None None False)
     = Inr (Some 7) \<and>
   requests (snd (safe_respond responded_remote ready_state an_interaction (Some ''done'') None None None False)) =
     requests ready_state @
       [respond_call an_interaction (Some ''done'') None None None False,
        followup_call an_interaction (Some ''done'') None None None False] \<and>
   records (snd (safe_respond responded_remote ready_state an_interaction (Some ''done'') None None None False)) =
     records ready_state"
proof -
  have r: "responded_remote (respond_call an_interaction (Some ''done'') None None None False)
             = Inl (InteractionResponded ''This interaction has already been responded to before'')"
    by (simp add: respond_call_def)
  have f: "responded_remote (followup_call an_interaction (Some ''done'') None None None False) = Inr 7"
    by (simp add: followup_call_def)
  show ?thesis
    using r f by (simp add: safe_respond_responded safe_followup_Inr and_then_def)
qed

text \<open>C2, as stated, fails: with the logger set up, a followup that succeeds adds no log
  entry.\<close>

theorem followup_success_logs_nothing:
  "logger ready_state = Some ''DungeonBot'' \<and>
   accepting_remote (followup_call an_interaction (Some ''done'') None None None False) = Inr 7 \<and>
   entries_added ready_state
     (safe_followup accepting_remote ready_state an_interaction (Some ''done'') None None None False) = Some 0"
  by (simp add: logger_ready_state accepting_remote_def safe_followup_Inr entries_added_def)

text \<open>C2, amended: with the logger set up, \<^verbatim>\<open>safe_send_message\<close> adds exactly one log
  entry and issues exactly one request, whatever the outcome. \<^verbatim>\<open>safe_followup\<close> issues
  exactly one request and adds one log entry when the request fails, none when it
  succeeds. \<^verbatim>\<open>safe_respond\<close> issues one request and adds one log entry when it fails, none
  when it succeeds; when the failure is the already-responded condition it issues the
  followup request as a second one, and the log entry is the followup's: one when the
  followup fails, none when it succeeds. Earlier entries and requests stay as they were.\<close>

theorem log_entries_and_requests_per_call:
  "logger st = Some n \<Longrightarrow>
   entries_added st (safe_send_message rl st channel content emb view file) = Some 1 \<and>
   requests_added st (safe_send_message rl st channel content emb view file) =
     Some [Safe_send channel content emb view file] \<and>
   entries_added st (safe_followup rl st itx content emb view file eph) =
     Some (if isl (rl (followup_call itx content emb view file eph)) then 1 else 0) \<and>
   requests_added st (safe_followup rl st itx content emb view file eph) =
     Some [followup_call itx content emb view file eph] \<and>
   entries_added st (safe_respond rl st itx content emb view file eph) =
     Some (if already_responded (rl (respond_call itx content emb view file eph))
           then (if isl (rl (followup_call itx content emb view file eph)) then 1 else 0)
           else (if isl (rl (respond_call itx content emb view file eph)) then 1 else 0)) \<and>
   requests_added st (safe_respond rl st itx content emb view file eph) =
     Some (if already_responded (rl (respond_call itx content emb view file eph))
           then [respond_call itx content emb view file eph,
                 followup_call itx content emb view file eph]
           else [respond_call itx content emb view file eph])"
proof -
  assume lg: "logger st = Some n"
  note e = dispatcher_effects [OF lg, of rl channel content emb view "file" itx eph]
  from e show ?thesis
    by (auto simp: entries_added_def requests_added_def split: if_splits)
qed

theorem log_entries_and_requests_per_call_witness:
  "logger ready_state = Some ''DungeonBot'' \<and>
   entries_added ready_state
     (safe_send_message accepting_remote ready_state general_channel (Some ''hi'') None None None) = Some 1 \<and>
   requests_added ready_state
     (safe_send_message accepting_remote ready_state general_channel (Some ''hi'') None None None) =
     Some [Safe_send general_channel (Some ''hi'') None None None] \<and>
   entries_added ready_state
     (safe_followup accepting_remote ready_state an_interaction (Some ''hi'') None None None False) = Some 0 \<and>
   entries_added ready_state
     (safe_respond responded_remote ready_state an_interaction (Some ''hi'') None None None False) = Some 0 \<and>
   requests_added ready_state
     (safe_respond responded_remote ready_state an_interaction (Some ''hi'') None None None False) =
     Some [respond_call an_interaction (Some ''hi'') None None None False,
           followup_call an_interaction (Some ''hi'') None None None False] \<and>
   entries_added ready_state
     (safe_respond forbidding_remote ready_state an_interaction (Some ''hi'') None None None False) = Some 1"
proof -
  note a = log_entries_and_requests_per_call [OF logger_ready_state, of accepting_remote
             general_channel "Some ''hi''" None None None an_interaction False]
  note r = log_entries_and_requests_per_call [OF logger_ready_state, of responded_remote
             general_channel "Some ''hi''" None None None an_interaction False]
  note f = log_entries_and_requests_per_call [OF logger_ready_state, of forbidding_remote
             general_channel "Some ''hi''" None None None an_interaction False]
  have a': "entries_added ready_state
       (safe_send_message accepting_remote ready_state general_channel (Some ''hi'') None None None) = Some 1"
     "requests_added ready_state
       (safe_send_message accepting_remote ready_state general_channel (Some ''hi'') None None None) =
       Some [Safe_send general_channel (Some ''hi'') None None None]"
     "entries_added ready_state
       (safe_followup accepting_remote ready_state an_interaction (Some ''hi'') None None None False) = Some 0"
    using a by (simp_all add: accepting_remote_def)
  have r': "entries_added ready_state
       (safe_respond responded_remote ready_state an_interaction (Some ''hi'') None None None False) = Some 0"
     "requests_added ready_state
       (safe_respond responded_remote ready_state an_interaction (Some ''hi'') None None None False) =
       Some [respond_call an_interaction (Some ''hi'') None None None False,
             followup_call an_interaction (Some ''hi'') None None None False]"
    using r by (simp_all add: respond_call_def followup_call_def)
  have f': "entries_added ready_state
       (safe_respond forbidding_remote ready_state an_interaction (Some ''hi'') None None None False) = Some 1"
    using f by (simp add: forbidding_remote_def)
  from logger_ready_state a' r' f' show ?thesis by blast
qed

text \<open>C3: with the logger set up, whatever exception the underlying send raises,
  \<^verbatim>\<open>safe_send_message\<close> does not raise: it returns \<^verbatim>\<open>None\<close>, and adds exactly one entry
  to the log, at error level, which names the channel for a permission denial and for
  not-found and carries the failure's description for anything else.\<close>

theorem send_failure_logged_not_raised:
  "logger st = Some n \<Longrightarrow> rl (Safe_send channel content emb view file) = Inl e \<Longrightarrow>
   safe_send_message rl st channel content emb view file =
     (Inr None,
      st\<lparr>requests := requests st @ [Safe_send channel content emb view file],
         records := records st @ [error_record n (send_error_text channel e)]\<rparr>)"
  by (rule safe_send_message_Inl)

theorem send_failure_logged_not_raised_witness:
  "logger ready_state = Some ''DungeonBot'' \<and>
   forbidding_remote (Safe_send general_channel (Some ''hi'') None None None) = Inl (Forbidden ''403 Forbidden'') \<and>
   safe_send_message forbidding_remote ready_state general_channel (Some ''hi'') None None None =
     (Inr None,
      ready_state\<lparr>requests := requests ready_state @ [Safe_send general_channel (Some ''hi'') None None None],
         records := records ready_state @
           [error_record ''DungeonBot'' ''Bot has not the permission to send messages in general'']\<rparr>)"
  using send_failure_logged_not_raised [of ready_state "''DungeonBot''" forbidding_remote
          general_channel "Some ''hi''" None None None "Forbidden ''403 Forbidden''"]
  by (simp add: logger_ready_state forbidding_remote_def send_error_text_def general_channel_def)

text \<open>C4, as stated, fails: for a command context the notification of \<^verbatim>\<open>failure\<close> and of
  \<^verbatim>\<open>success\<close> is sent with \<^verbatim>\<open>ctx.send\<close>, and a permission denial there is raised to the
  caller.\<close>

theorem failure_on_context_raises:
  "logger ready_state = Some ''DungeonBot'' \<and>
   fst (failure sample_Colour forbidding_remote ready_state (Context a_context) ''oops'' 5 False)
     = Inl (Forbidden ''403 Forbidden'') \<and>
   fst (success sample_Colour forbidding_remote ready_state (Context a_context) ''done'' 5)
     = Inl (Forbidden ''403 Forbidden'')"
  by (simp add: logger_ready_state failure_def success_def log_Some [OF logger_ready_state]
        and_then_def client_Context forbidding_remote_def)

text \<open>C4, amended: with the logger set up, \<^verbatim>\<open>success\<close> and \<^verbatim>\<open>failure\<close> first log the
  message (at info and at error level). For a command context the notification is then
  sent with \<^verbatim>\<open>ctx.send\<close> and \<^verbatim>\<open>delete_after\<close>, outside the dispatcher: what that call
  raises is raised to the caller, and nothing more is logged. For an interaction the
  notification is handed to \<^verbatim>\<open>safe_respond\<close> as an ephemeral embed, without
  \<^verbatim>\<open>delete_after\<close>, and the operation does not raise.\<close>

theorem notification_delivery_by_target:
  "logger st = Some n \<Longrightarrow>
   success lib rl st (Context c) msg d =
     (case rl (Ctx_send c (with_footer c (notice '':white_check_mark: Success'' (green lib) msg)) d) of
        Inl e \<Rightarrow> Inl e | Inr m \<Rightarrow> Inr (Some m),
      st\<lparr>records := records st @
           [\<lparr>rec_name = n, rec_levelno = INFO, rec_msg = msg, rec_stack_info = False\<rparr>],
         requests := requests st @
           [Ctx_send c (with_footer c (notice '':white_check_mark: Success'' (green lib) msg)) d]\<rparr>) \<and>
   failure lib rl st (Context c) msg d tr =
     (case rl (Ctx_send c (with_footer c (notice '':x: Error'' (red lib) msg)) d) of
        Inl e \<Rightarrow> Inl e | Inr m \<Rightarrow> Inr (Some m),
      st\<lparr>records := records st @
           [\<lparr>rec_name = n, rec_levelno = ERROR, rec_msg = msg, rec_stack_info = tr\<rparr>],
         requests := requests st @
           [Ctx_send c (with_footer c (notice '':x: Error'' (red lib) msg)) d]\<rparr>) \<and>
   success lib rl st (Interaction i) msg d =
     safe_respond rl
       (st\<lparr>records := records st @
           [\<lparr>rec_name = n, rec_levelno = INFO, rec_msg = msg, rec_stack_info = False\<rparr>]\<rparr>)
       i None (Some (notice '':white_check_mark: Success'' (green lib) msg)) None None True \<and>
   failure lib rl st (Interaction i) msg d tr =
     safe_respond rl
       (st\<lparr>records := records st @
           [\<lparr>rec_name = n, rec_levelno = ERROR, rec_msg = msg, rec_stack_info = tr\<rparr>]\<rparr>)
       i None (Some (notice '':x: Error'' (red lib) msg)) None None True \<and>
   \<not> isl (fst (success lib rl st (Interaction i) msg d)) \<and>
   \<not> isl (fst (failure lib rl st (Interaction i) msg d tr))"
proof -
  assume lg: "logger st = Some n"
  let ?si = "st\<lparr>records := records st @
           [\<lparr>rec_name = n, rec_levelno = INFO, rec_msg = msg, rec_stack_info = False\<rparr>]\<rparr>"
  let ?se = "st\<lparr>records := records st @
           [\<lparr>rec_name = n, rec_levelno = ERROR, rec_msg = msg, rec_stack_info = tr\<rparr>]\<rparr>"
  have li: "logger ?si = Some n" and le: "logger ?se = Some n" using lg by simp_all
  have s: "success lib rl st ctx msg d =
             client rl ?si ctx msg (Some '':white_check_mark: Success'') (green lib) d" for ctx
    by (simp add: success_def log_Some [OF lg] and_then_def)
  have f: "failure lib rl st ctx msg d tr = client rl ?se ctx msg (Some '':x: Error'') (red lib) d" for ctx
    by (simp add: failure_def log_Some [OF lg] and_then_def)
  show ?thesis
    using safe_respond_no_raise [OF li] safe_respond_no_raise [OF le]
    by (simp add: s f client_Context client_Interaction)
qed

theorem notification_delivery_by_target_witness:
  "logger ready_state = Some ''DungeonBot'' \<and>
   fst (success sample_Colour forbidding_remote ready_state (Context a_context) ''oops'' 5)
     = Inl (Forbidden ''403 Forbidden'') \<and>
   \<not> isl (fst (success sample_Colour forbidding_remote ready_state (Interaction an_interaction) ''oops'' 5)) \<and>
   \<not> isl (fst (failure sample_Colour forbidding_remote ready_state (Interaction an_interaction) ''oops'' 5 True))"
proof -
  note t = notification_delivery_by_target [where st = ready_state and n = "''DungeonBot''"
          and lib = sample_Colour and rl = forbidding_remote and c = a_context
          and msg = "''oops''" and d = 5 and tr = True and i = an_interaction,
          OF logger_ready_state]
  have "fst (success sample_Colour forbidding_remote ready_state (Context a_context) ''oops'' 5)
          = Inl (Forbidden ''403 Forbidden'')"
    by (simp add: t [THEN conjunct1] forbidding_remote_def)
  with t [THEN conjunct2, THEN conjunct2, THEN conjunct2, THEN conjunct2] logger_ready_state
  show ?thesis by simp
qed

section \<open>Properties of the log sink\<close>

text \<open>A logger created under a dotted name has the logger of the nearest created prefix
  as its parent, and \<^verbatim>\<open>hasHandlers\<close> finds the handlers there: after \<^verbatim>\<open>setup_logger("a")\<close>,
  \<^verbatim>\<open>setup_logger("a.b")\<close> attaches nothing to the logger \<^verbatim>\<open>a.b\<close>.\<close>

lemma dotted_prefixes_a_b: "dotted_prefixes ''a.b'' = [''a'']"
  by (simp add: dotted_prefixes_def dot_positions_def upt_rec)

lemma dotted_child_attaches_nothing:
  "\<exists>st1 st2. setup_logger fresh_state ''a'' ''INFO'' ''INFO'' = Some st1 \<and>
     setup_logger st1 ''a.b'' ''INFO'' ''INFO'' = Some st2 \<and>
     parent (loggers st2 ''a.b'') = ''a'' \<and> handlers (loggers st2 ''a.b'') = []"
proof -
  let ?s0 = "snd (getLogger fresh_state ''a'')"
  have k: "logger_key ''a'' = ''a''" "logger_key ''a.b'' = ''a.b''"
    by (simp_all add: logger_key_def)
  have own: "chain_link ?s0 ''a'' = (False, True, ''root'')"
    by (simp add: chain_link_def getLogger_def Let_def logger_key_def fresh_state_def
          fixupParents_def new_logger_def)
  have root: "\<not> fst (chain_link ?s0 ''root'')"
    by (simp add: chain_link_def getLogger_def Let_def logger_key_def fresh_state_def
          fixupChildren_def)
  have "has_handlers_from (chain_link ?s0) ''a'' = has_handlers_from (chain_link ?s0) ''root''"
    using walk_parent [of "chain_link ?s0" "''a''"] by (simp add: own)
  also have "\<dots> = Some False" by (rule walk_root, rule root)
  finally have none: "hasHandlers ?s0 (logger_key ''a'') = Some False"
    by (simp add: hasHandlers_def k)
  define st1 where "st1 = addHandler
       (addHandler (setLevel (?s0\<lparr>logger := Some ''a''\<rparr>) ''a'' (min (level_of ''INFO'') (level_of ''INFO'')))
          ''a'' (file_handler_at (level_of ''INFO'')))
       ''a'' (console_handler_at (level_of ''INFO''))"
  have one: "setup_logger fresh_state ''a'' ''INFO'' ''INFO'' = Some st1"
    using setup_logger_absent [OF none, of "''INFO''" "''INFO''"] by (simp add: st1_def k)
  have cr: "created st1 = {''a''}"
    by (simp add: st1_def getLogger_def Let_def logger_key_def fresh_state_def)
  have ha: "handlers (loggers st1 ''a'') \<noteq> []"
    by (simp add: st1_def)
  let ?s2 = "snd (getLogger st1 ''a.b'')"
  have par: "parent (loggers ?s2 ''a.b'') = ''a''" and hb: "handlers (loggers ?s2 ''a.b'') = []"
    and pb: "propagate (loggers ?s2 ''a.b'')"
    by (simp_all add: getLogger_def Let_def logger_key_def cr fixupParents_def
          dotted_prefixes_a_b new_logger_def)
  have la: "loggers ?s2 ''a'' = loggers st1 ''a''"
    by (simp add: getLogger_def Let_def logger_key_def cr fixupChildren_def dotted_prefixes_def
          dot_positions_def upt_rec)
  have "has_handlers_from (chain_link ?s2) ''a.b'' = has_handlers_from (chain_link ?s2) ''a''"
    using walk_parent [of "chain_link ?s2" "''a.b''"] par hb pb by (simp add: chain_link_def)
  also have "\<dots> = Some True"
    by (rule walk_own) (simp add: chain_link_def la ha)
  finally have some: "hasHandlers ?s2 (logger_key ''a.b'') = Some True"
    by (simp add: hasHandlers_def k)
  define st2 where "st2 = setLevel (?s2\<lparr>logger := Some ''a.b''\<rparr>) ''a.b''
                            (min (level_of ''INFO'') (level_of ''INFO''))"
  have two: "setup_logger st1 ''a.b'' ''INFO'' ''INFO'' = Some st2"
    using setup_logger_present [OF some, of "''INFO''" "''INFO''"] by (simp add: st2_def k)
  have "parent (loggers st2 ''a.b'') = ''a''" "handlers (loggers st2 ''a.b'') = []"
    using par hb by (simp_all add: st2_def setLevel_def)
  with one two show ?thesis by blast
qed

text \<open>C6, as stated, fails: a second initialization under the same name is not a no-op.
  The handlers are there after the first call with both levels \<^verbatim>\<open>INFO\<close>; the second
  call, with both levels \<^verbatim>\<open>ERROR\<close>, raises the logger's own level from 20 to 40.\<close>

theorem second_setup_resets_level:
  "hasHandlers ready_state ''DungeonBot'' = Some True \<and>
   level (loggers ready_state ''DungeonBot'') = 20 \<and>
   map_option (\<lambda>st. level (loggers st ''DungeonBot''))
     (setup_logger ready_state ''DungeonBot'' ''ERROR'' ''ERROR'') = Some 40"
proof -
  have h: "hasHandlers ready_state ''DungeonBot'' = Some True"
    using setup_logger_cases(3) [OF setup_fresh] by (simp add: key_DungeonBot)
  have rs: "ready_state = addHandler
       (addHandler
          (setLevel ((snd (getLogger fresh_state ''DungeonBot''))\<lparr>logger := Some ''DungeonBot''\<rparr>)
             ''DungeonBot'' (min (level_of ''INFO'') (level_of ''INFO'')))
          ''DungeonBot'' (file_handler_at (level_of ''INFO'')))
       ''DungeonBot'' (console_handler_at (level_of ''INFO''))"
    using setup_fresh setup_logger_absent [OF fresh_no_handlers, of "''INFO''" "''INFO''"]
    by (simp add: key_DungeonBot)
  have l1: "level (loggers ready_state ''DungeonBot'') = 20"
    unfolding rs by (simp add: level_of_evals)
  have l2: "map_option (\<lambda>st. level (loggers st ''DungeonBot''))
              (setup_logger ready_state ''DungeonBot'' ''ERROR'' ''ERROR'') = Some 40"
    by (simp add: setup_logger_again [OF setup_fresh] key_DungeonBot level_of_evals)
  from h l1 l2 show ?thesis by simp
qed

text \<open>C6, amended: when a logger that has no reachable handlers (none of its own, and
  none on the loggers \<^verbatim>\<open>hasHandlers\<close> walks to from it) is initialized and then
  initialized again under the same name, the second call attaches nothing: the logger has
  exactly the file handler and the console handler of the first call, at the first
  call's levels. The second call changes one thing, the logger's own level, which
  becomes the lower of the second call's two levels; when the second call's levels are
  those of the first, it changes nothing.\<close>

theorem second_setup_adds_no_handler:
  "hasHandlers (snd (getLogger st name)) (logger_key name) = Some False \<Longrightarrow>
   (\<exists>st1. setup_logger st name f1 c1 = Some st1 \<and>
      handlers (loggers st1 (logger_key name)) =
        [file_handler_at (level_of f1), console_handler_at (level_of c1)] \<and>
      setup_logger st1 name f2 c2 =
        Some (setLevel st1 (logger_key name) (min (level_of f2) (level_of c2))) \<and>
      handlers (loggers (setLevel st1 (logger_key name) (min (level_of f2) (level_of c2)))
                  (logger_key name)) =
        [file_handler_at (level_of f1), console_handler_at (level_of c1)] \<and>
      (level_of f2 = level_of f1 \<and> level_of c2 = level_of c1 \<longrightarrow>
         setup_logger st1 name f2 c2 = Some st1))"
proof -
  assume a: "hasHandlers (snd (getLogger st name)) (logger_key name) = Some False"
  let ?n = "logger_key name"
  define st1 where "st1 = addHandler
       (addHandler
          (setLevel ((snd (getLogger st name))\<lparr>logger := Some ?n\<rparr>) ?n (min (level_of f1) (level_of c1)))
          ?n (file_handler_at (level_of f1)))
       ?n (console_handler_at (level_of c1))"
  have one: "setup_logger st name f1 c1 = Some st1"
    by (simp add: st1_def setup_logger_absent [OF a])
  have h: "handlers (loggers st1 ?n) =
             [file_handler_at (level_of f1), console_handler_at (level_of c1)]"
    using no_handlers [OF a] by (simp add: st1_def)
  have two: "setup_logger st1 name f2 c2 =
               Some (setLevel st1 ?n (min (level_of f2) (level_of c2)))"
    by (rule setup_logger_again [OF one])
  have lvl: "level (loggers st1 ?n) = min (level_of f1) (level_of c1)"
    by (simp add: st1_def)
  have same: "setup_logger st1 name f2 c2 = Some st1"
    if "level_of f2 = level_of f1" "level_of c2 = level_of c1"
    unfolding two using that lvl by (simp add: setLevel_same)
  from one h two same show ?thesis by auto
qed

theorem second_setup_adds_no_handler_witness:
  "hasHandlers (snd (getLogger fresh_state ''DungeonBot'')) (logger_key ''DungeonBot'') = Some False \<and>
   setup_logger fresh_state ''DungeonBot'' ''INFO'' ''INFO'' = Some ready_state \<and>
   handlers (loggers ready_state ''DungeonBot'') = [file_handler_at 20, console_handler_at 20] \<and>
   setup_logger ready_state ''DungeonBot'' ''debug'' ''Error'' =
     Some (setLevel ready_state ''DungeonBot'' 10) \<and>
   setup_logger ready_state ''DungeonBot'' ''INFO'' ''verbose'' = Some ready_state"
proof -
  from second_setup_adds_no_handler [OF fresh_no_handlers, of "''INFO''" "''INFO''" "''debug''" "''Error''"]
  have a: "handlers (loggers ready_state ''DungeonBot'') = [file_handler_at 20, console_handler_at 20]"
    and b: "setup_logger ready_state ''DungeonBot'' ''debug'' ''Error'' =
              Some (setLevel ready_state ''DungeonBot'' 10)"
    by (auto simp: setup_fresh key_DungeonBot level_of_evals)
  from second_setup_adds_no_handler [OF fresh_no_handlers, of "''INFO''" "''INFO''" "''INFO''" "''verbose''"]
  have c: "setup_logger ready_state ''DungeonBot'' ''INFO'' ''verbose'' = Some ready_state"
    by (auto simp: setup_fresh level_of_evals)
  from fresh_no_handlers setup_fresh a b c show ?thesis by blast
qed

section \<open>Properties of the view cleanup\<close>

lemma collect_views_filter:
  "collect_views vt acc vs = acc @ filter (\<lambda>v. isinstance v vt) vs"
  by (induction vs arbitrary: acc) simp_all

lemma list_remove_member: "x \<in> set xs \<Longrightarrow> \<not> isl (list_remove x xs)"
proof (induction xs)
  case Nil
  then show ?case by simp
next
  case (Cons a xs)
  show ?case
  proof (cases "x = a")
    case True
    then show ?thesis by simp
  next
    case False
    with Cons.prems have "x \<in> set xs" by simp
    then have "\<not> isl (list_remove x xs)" by (rule Cons.IH)
    then show ?thesis using False by (cases "list_remove x xs") simp_all
  qed
qed

lemma remove_views_members:
  "set vs \<subseteq> set (persistent_views b) \<Longrightarrow> remove_views vs b = Inr ()"
proof (induction vs)
  case Nil
  then show ?case by simp
next
  case (Cons v vs)
  then have "v \<in> set (persistent_views b)" by simp
  then have "\<not> isl (list_remove v (persistent_views b))" by (rule list_remove_member)
  then obtain ys where "list_remove v (persistent_views b) = Inr ys"
    by (cases "list_remove v (persistent_views b)") simp_all
  with Cons show ?case by simp
qed

lemma str_nat_2: "str_nat 2 = ''2''"
  by (simp add: char_eval)

lemma str_nat_Suc_Suc_0: "str_nat (Suc (Suc 0)) = ''2''"
  using str_nat_2 by (simp only: numeral_2_eq_2)

text \<open>C9: with the logger set up, \<^verbatim>\<open>clear_views\<close> without view types removes nothing and
  logs one warning, as claimed. With view types that \<open>N\<close> of the persistent views are
  instances of, it logs one entry that reports \<open>N\<close> as removed, but it removes nothing:
  the client holds the same persistent views after the call as before.\<close>

theorem clear_views_removes_nothing:
  "logger st = Some n \<Longrightarrow>
   clear_views st b None =
     ((Inr (), st\<lparr>records := records st @
         [\<lparr>rec_name = n, rec_levelno = WARNING,
           rec_msg = ''No view types provided to clear_views; skipping.'', rec_stack_info = False\<rparr>]\<rparr>),
      b) \<and>
   clear_views st b (Some vt) =
     ((Inr (), st\<lparr>records := records st @
         [\<lparr>rec_name = n, rec_levelno = INFO,
           rec_msg = ''Removed '' @ str_nat (length (filter (\<lambda>v. isinstance v vt) (persistent_views b)))
                     @ '' persistent views of types '' @ str_view_types vt,
           rec_stack_info = False\<rparr>]\<rparr>),
      b) \<and>
   persistent_views (snd (clear_views st b (Some vt))) = persistent_views b"
proof -
  assume lg: "logger st = Some n"
  have rm: "remove_views (filter (\<lambda>v. isinstance v vt) (persistent_views b)) b = Inr ()"
    by (rule remove_views_members) auto
  show ?thesis
    by (simp add: clear_views_def collect_views_filter rm log_Some [OF lg] del: str_nat.simps)
qed

theorem clear_views_removes_nothing_witness:
  "logger ready_state = Some ''DungeonBot'' \<and>
   filter (\<lambda>v. isinstance v (One_type ''bot.TicketView'')) (persistent_views a_bot) =
     [a_view 1 ''bot.TicketView'', a_view 3 ''bot.TicketView''] \<and>
   clear_views ready_state a_bot (Some (One_type ''bot.TicketView'')) =
     ((Inr (), ready_state\<lparr>records := records ready_state @
         [\<lparr>rec_name = ''DungeonBot'', rec_levelno = INFO,
           rec_msg = ''Removed 2 persistent views of types '' @ repr_class ''bot.TicketView'',
           rec_stack_info = False\<rparr>]\<rparr>),
      a_bot) \<and>
   persistent_views (snd (clear_views ready_state a_bot (Some (One_type ''bot.TicketView'')))) =
     [a_view 1 ''bot.TicketView'', a_view 2 ''bot.RoleView'', a_view 3 ''bot.TicketView'']"
proof -
  note t = clear_views_removes_nothing [OF logger_ready_state, of a_bot "One_type ''bot.TicketView''"]
  have f1: "filter (\<lambda>v. isinstance v (One_type ''bot.TicketView'')) (persistent_views a_bot) =
              [a_view 1 ''bot.TicketView'', a_view 3 ''bot.TicketView'']"
    by (simp add: a_bot_def persistent_views_def a_view_def isinstance_def)
  have c2: "clear_views ready_state a_bot (Some (One_type ''bot.TicketView'')) =
     ((Inr (), ready_state\<lparr>records := records ready_state @
         [\<lparr>rec_name = ''DungeonBot'', rec_levelno = INFO,
           rec_msg = ''Removed 2 persistent views of types '' @ repr_class ''bot.TicketView'',
           rec_stack_info = False\<rparr>]\<rparr>),
      a_bot)"
    unfolding t [THEN conjunct2, THEN conjunct1] f1 by (simp add: str_nat_Suc_Suc_0 del: str_nat.simps)
  have c3: "persistent_views (snd (clear_views ready_state a_bot (Some (One_type ''bot.TicketView'')))) =
     [a_view 1 ''bot.TicketView'', a_view 2 ''bot.RoleView'', a_view 3 ''bot.TicketView'']"
    unfolding t [THEN conjunct2, THEN conjunct2] by (simp add: a_bot_def persistent_views_def)
  from logger_ready_state f1 c2 c3 show ?thesis by blast
qed

section \<open>Properties of the color resolver\<close>

lemma is_hex_cases:
  "is_hex c \<Longrightarrow> c \<in> set ''0123456789abcdefABCDEF''"
  by (simp add: is_hex_def hex_digits_def split: if_splits)

lemma is_hex_facts:
  assumes "is_hex c"
  shows "digit_value c = hex_digit c" and "hex_digit c < 16"
    and "\<not> py_isspace c" and "\<not> int_isspace c"
    and "c \<noteq> CHR ''_''" and "c \<noteq> CHR ''+''" and "c \<noteq> CHR ''-''" and "c \<noteq> CHR ''#''"
    and "c \<noteq> CHR ''x''" and "c \<noteq> CHR ''X''"
    and "is_hex (py_lower_char c)"
  using is_hex_cases [OF assms]
  by (auto simp: digit_value_def hex_digit_def hex_digits_def py_isspace_def int_isspace_def
        py_lower_char_def is_hex_def char_eval)

lemma scan_digits_hex:
  "list_all is_hex s \<Longrightarrow>
   scan_digits acc prev s =
     Some (foldl (\<lambda>a d. 16 * a + hex_digit d) acc s, if s = [] then prev else Some (last s), [])"
  by (induction s arbitrary: acc prev) (simp_all add: is_hex_facts mult.commute)

lemma int_base16_hex:
  assumes "s \<noteq> []" and "list_all is_hex s"
  shows "int_base16 s = Inr (int (hex_value s))"
proof -
  from assms obtain c cs where s: "s = c # cs" and c: "is_hex c" and cs: "list_all is_hex cs"
    by (cases s) auto
  have l: "is_hex (last s)" using assms by (simp add: list_all_iff)
  have d: "dropWhile int_isspace s = s" using s c by (simp add: is_hex_facts)
  have g: "skip_sign s = (False, s)" using s c by (simp add: skip_sign_def is_hex_facts)
  have p: "skip_prefix s = s"
    using s cs by (cases cs) (simp_all add: skip_prefix_def is_hex_facts)
  have h: "hd s \<noteq> CHR ''_''" using s c by (simp add: is_hex_facts)
  have nl: "last s \<noteq> CHR ''_''" using l by (simp add: is_hex_facts)
  show ?thesis
    using assms(1) h nl
    by (simp add: int_base16_def d g p scan_digits_hex [OF assms(2)] hex_value_def)
qed

lemma dropWhile_hd: "xs \<noteq> [] \<Longrightarrow> \<not> P (hd xs) \<Longrightarrow> dropWhile P xs = xs"
  by (cases xs) simp_all

lemma py_strip_id:
  "s \<noteq> [] \<Longrightarrow> \<not> py_isspace (hd s) \<Longrightarrow> \<not> py_isspace (last s) \<Longrightarrow> py_strip s = s"
  by (simp add: py_strip_def dropWhile_hd hd_rev)

lemma dropWhile_all: "list_all P ws \<Longrightarrow> dropWhile P (ws @ t) = dropWhile P t"
  by (induction ws) simp_all

lemma py_strip_surrounded:
  assumes "t \<noteq> []" "\<not> py_isspace (hd t)" "\<not> py_isspace (last t)"
    and "list_all py_isspace ws" "list_all py_isspace ws'"
  shows "py_strip (ws @ t @ ws') = t"
proof -
  from assms(1,2) have a: "dropWhile py_isspace t = t" by (cases t) simp_all
  from assms(1,3) have b: "dropWhile py_isspace (rev t) = rev t"
    by (cases t rule: rev_cases) simp_all
  have "dropWhile py_isspace (ws @ t @ ws') = t @ ws'"
    using assms(1,2) by (cases t) (simp_all add: dropWhile_all [OF assms(4)])
  moreover have "dropWhile py_isspace (rev ws' @ rev t) = rev t"
    using assms(5) b by (simp add: dropWhile_all list_all_iff)
  ultimately show ?thesis by (simp add: py_strip_def)
qed

lemma py_isspace_lower: "py_isspace c \<Longrightarrow> py_lower_char c = c"
  by (auto simp: py_isspace_def py_lower_char_def Let_def)


lemma known_not_hexish: "n \<in> set known_colors \<Longrightarrow> \<not> list_all hexish n"
  by (auto simp: known_colors_def hexish_def is_hex_def hex_digits_def)

lemma known_ends:
  "n \<in> set known_colors \<Longrightarrow> n \<noteq> [] \<and> \<not> py_isspace (hd n) \<and> \<not> py_isspace (last n)"
  by (auto simp: known_colors_def py_isspace_def)

lemma lower_hash: "py_lower_char (CHR ''#'') = CHR ''#''"
  by (simp add: py_lower_char_def)

lemma hexish_lower: "hexish c \<Longrightarrow> hexish (py_lower_char c)"
  by (auto simp: hexish_def is_hex_facts lower_hash)

lemma hexish_not_known: "list_all hexish s \<Longrightarrow> py_lower s \<notin> set known_colors"
proof
  assume a: "list_all hexish s" and k: "py_lower s \<in> set known_colors"
  from a have "list_all hexish (py_lower s)"
    by (simp add: py_lower_def list_all_iff hexish_lower)
  with known_not_hexish [OF k] show False by simp
qed

lemma try_hex_candidate:
  "try_hex (py_strip s) =
     (if length (hex_candidate s) = 6
      then (case int_base16 (hex_candidate s) of Inl e \<Rightarrow> Inl e | Inr v \<Rightarrow> Inr (Some (Colour v)))
      else Inr None,
      hex_candidate s)"
  by (cases "py_strip s")
     (simp_all add: try_hex_def hex_candidate_def doubled_def Let_def split: sum.splits)

lemma str_to_color_parsed:
  assumes "py_lower (py_strip s) \<notin> set known_colors"
    and "length (hex_candidate s) = 6" and "int_base16 (hex_candidate s) = Inr v"
  shows "str_to_color lib st s = (Inr (Colour v), st)"
  using assms by (simp add: str_to_color_def Let_def try_hex_candidate)

lemma str_to_color_default:
  assumes "logger st = Some n" and "py_lower (py_strip s) \<notin> set known_colors"
    and "length (hex_candidate s) \<noteq> 6 \<or> isl (int_base16 (hex_candidate s))"
  shows "str_to_color lib st s =
           (Inr (blurple lib), st\<lparr>records := records st @ [invalid_color_warning n (hex_candidate s)]\<rparr>)"
  using assms(2,3)
  by (cases "int_base16 (hex_candidate s)")
     (auto simp: str_to_color_def Let_def try_hex_candidate log_Some [OF assms(1)] and_then_def
        invalid_color_warning_def)

lemma str_to_color_getattr:
  assumes k: "n \<in> set known_colors" and t: "py_lower t = n"
    and ws: "list_all py_isspace ws" "list_all py_isspace ws'"
  shows "str_to_color lib st (ws @ t @ ws') = (getattr_Colour lib n, st)"
proof -
  note e = known_ends [OF k]
  from e t have ne: "t \<noteq> []" by (auto simp: py_lower_def)
  from t ne have hn: "hd n = py_lower_char (hd t)" and ln: "last n = py_lower_char (last t)"
    by (auto simp: py_lower_def hd_map last_map)
  have h: "\<not> py_isspace (hd t)"
  proof
    assume "py_isspace (hd t)"
    then have "py_isspace (py_lower_char (hd t))" by (simp add: py_isspace_lower)
    with hn e show False by simp
  qed
  have l: "\<not> py_isspace (last t)"
  proof
    assume "py_isspace (last t)"
    then have "py_isspace (py_lower_char (last t))" by (simp add: py_isspace_lower)
    with ln e show False by simp
  qed
  have "py_strip (ws @ t @ ws') = t" by (rule py_strip_surrounded [OF ne h l ws])
  with k t show ?thesis by (simp add: str_to_color_def Let_def)
qed

lemma str_to_color_known:
  assumes k: "n \<in> set known_colors" and t: "py_lower t = n"
    and ws: "list_all py_isspace ws" "list_all py_isspace ws'"
    and c: "classmethods lib n = Some c"
  shows "str_to_color lib st (ws @ t @ ws') = (Inr c, st)"
  using str_to_color_getattr [OF k t ws, of lib st] c by (simp add: getattr_Colour_def)

lemma known_lower: "n \<in> set known_colors \<Longrightarrow> py_lower n = n"
  by (auto simp: known_colors_def py_lower_def py_lower_char_def)

lemma str_to_color_undefined_name:
  assumes "n \<in> set known_colors" and "classmethods lib n = None"
  shows "str_to_color lib st n = (Inl (no_attribute n), st)"
  using str_to_color_getattr [OF assms(1) known_lower [OF assms(1)], of "[]" "[]" lib st] assms(2)
  by (simp add: getattr_Colour_def)

lemma hash_not_space: "\<not> py_isspace (CHR ''#'')"
  by (simp add: py_isspace_def)

lemma hex_plain:
  assumes "s \<noteq> []" and "list_all is_hex s"
  shows "py_strip s = s" and "py_strip (CHR ''#'' # s) = CHR ''#'' # s"
    and "py_lower s \<notin> set known_colors" and "py_lower (CHR ''#'' # s) \<notin> set known_colors"
    and "hex_candidate s = (if length s = 3 then doubled s else s)"
    and "hex_candidate (CHR ''#'' # s) = (if length s = 3 then doubled s else s)"
proof -
  from assms have h: "is_hex (hd s)" and l: "is_hex (last s)" by (simp_all add: list_all_iff)
  show 1: "py_strip s = s" using assms(1) h l by (simp add: py_strip_id is_hex_facts)
  show 2: "py_strip (CHR ''#'' # s) = CHR ''#'' # s"
    using assms(1) l by (simp add: py_strip_id is_hex_facts hash_not_space)
  have x: "list_all hexish s" using assms(2) by (simp add: list_all_iff hexish_def)
  then show "py_lower s \<notin> set known_colors" by (rule hexish_not_known)
  from x have "list_all hexish (CHR ''#'' # s)" by (simp add: hexish_def)
  then show "py_lower (CHR ''#'' # s) \<notin> set known_colors" by (rule hexish_not_known)
  have "(case s of [] \<Rightarrow> s | c # cs \<Rightarrow> if c = CHR ''#'' then cs else s) = s"
    using assms(1) h by (cases s) (simp_all add: is_hex_facts)
  then show "hex_candidate s = (if length s = 3 then doubled s else s)"
    by (simp add: hex_candidate_def 1 Let_def)
  show "hex_candidate (CHR ''#'' # s) = (if length s = 3 then doubled s else s)"
    by (simp add: hex_candidate_def 2 Let_def)
qed

lemma doubled_hex: "list_all is_hex s \<Longrightarrow> list_all is_hex (doubled s)"
  by (induction s) (simp_all add: doubled_def)

lemma length_doubled: "length (doubled s) = 2 * length s"
  by (induction s) (simp_all add: doubled_def)

lemma str_to_color_hex6:
  assumes "length s = 6" and "list_all is_hex s"
  shows "str_to_color lib st s = (Inr (Colour (int (hex_value s))), st)"
    and "str_to_color lib st (CHR ''#'' # s) = (Inr (Colour (int (hex_value s))), st)"
proof -
  from assms(1) have ne: "s \<noteq> []" by auto
  note p = hex_plain [OF ne assms(2)]
  show "str_to_color lib st s = (Inr (Colour (int (hex_value s))), st)"
    by (rule str_to_color_parsed) (simp_all add: p assms int_base16_hex [OF ne assms(2)])
  show "str_to_color lib st (CHR ''#'' # s) = (Inr (Colour (int (hex_value s))), st)"
    by (rule str_to_color_parsed) (simp_all add: p assms int_base16_hex [OF ne assms(2)])
qed

lemma str_to_color_hex3:
  assumes "length s = 3" and "list_all is_hex s"
  shows "str_to_color lib st s = (Inr (Colour (int (hex_value (doubled s)))), st)"
    and "str_to_color lib st (CHR ''#'' # s) = (Inr (Colour (int (hex_value (doubled s)))), st)"
proof -
  from assms(1) have ne: "s \<noteq> []" by auto
  note p = hex_plain [OF ne assms(2)]
  have len: "length (doubled s) = 6" using assms(1) by (simp add: length_doubled)
  then have d: "doubled s \<noteq> []" "length (doubled s) = 6" by auto
  note i = int_base16_hex [OF d(1) doubled_hex [OF assms(2)]]
  show "str_to_color lib st s = (Inr (Colour (int (hex_value (doubled s)))), st)"
    by (rule str_to_color_parsed) (simp_all add: p assms d i)
  show "str_to_color lib st (CHR ''#'' # s) = (Inr (Colour (int (hex_value (doubled s)))), st)"
    by (rule str_to_color_parsed) (simp_all add: p assms d i)
qed

lemma hex_digit_bound: "hex_digit c < 16"
  by (cases "is_hex c") (simp_all add: is_hex_facts, simp add: hex_digit_def is_hex_def)

lemma foldl_hex_bound:
  "foldl (\<lambda>a d. 16 * a + hex_digit d) acc s < (acc + 1) * 16 ^ length s"
proof (induction s arbitrary: acc)
  case Nil
  then show ?case by simp
next
  case (Cons c cs)
  have "foldl (\<lambda>a d. 16 * a + hex_digit d) acc (c # cs) =
        foldl (\<lambda>a d. 16 * a + hex_digit d) (16 * acc + hex_digit c) cs"
    by simp
  also have "\<dots> < (16 * acc + hex_digit c + 1) * 16 ^ length cs"
    by (rule Cons.IH)
  also have "\<dots> \<le> (16 * (acc + 1)) * 16 ^ length cs"
    using hex_digit_bound [of c] by (intro mult_right_mono) auto
  also have "\<dots> = (acc + 1) * 16 ^ length (c # cs)"
    by (simp add: algebra_simps)
  finally show ?case .
qed

lemma hex_value_bound: "hex_value s < 16 ^ length s"
  using foldl_hex_bound [of 0 s] by (simp add: hex_value_def)

lemmas int_eval = int_base16_def skip_sign_def skip_prefix_def int_isspace_def digit_value_def
  invalid_literal_def

lemmas strip_eval = py_strip_def py_isspace_def py_lower_def py_lower_char_def known_colors_def
  hex_candidate_def doubled_def

lemma plus_abcde:
  "py_lower (py_strip ''+abcde'') \<notin> set known_colors"
  "hex_candidate ''+abcde'' = ''+abcde''"
  "int_base16 ''+abcde'' = Inr 0xABCDE"
  "\<not> list_all is_hex ''+abcde''"
  by (simp_all add: strip_eval int_eval is_hex_def hex_digits_def)

lemma underscore_0ff:
  "py_lower (py_strip ''00_0ff'') \<notin> set known_colors"
  "hex_candidate ''00_0ff'' = ''00_0ff''"
  "int_base16 ''00_0ff'' = Inr 0xFF"
  "\<not> list_all is_hex ''00_0ff''"
  by (simp_all add: strip_eval int_eval is_hex_def hex_digits_def)

lemma prefix_12_4:
  "py_lower (py_strip ''0X12_4'') \<notin> set known_colors"
  "hex_candidate ''0X12_4'' = ''0X12_4''"
  "int_base16 ''0X12_4'' = Inr 0x124"
  by (simp_all add: strip_eval int_eval char_eval)

lemma hash_zzz:
  "py_lower (py_strip ''#zzz'') \<notin> set known_colors"
  "hex_candidate ''#zzz'' = ''zzzzzz''"
  "isl (int_base16 ''zzzzzz'')"
  by (simp_all add: strip_eval int_eval)

lemma zz:
  "py_lower (py_strip ''zz'') \<notin> set known_colors"
  "hex_candidate ''zz'' = ''zz''"
  by (simp_all add: strip_eval)

lemma teal_facts:
  "''teal'' \<in> set known_colors" "py_lower ''TEAL'' = ''teal''" "list_all py_isspace ''  ''"
  "list_all py_isspace '' ''" "classmethods sample_Colour ''teal'' = Some (Colour 0x1ABC9C)"
  by (simp_all add: known_colors_def py_lower_def py_lower_char_def py_isspace_def char_eval
        sample_Colour_def)

lemma hex_facts:
  "list_all is_hex ''1a2B3c''" "hex_value ''1a2B3c'' = 0x1A2B3C"
  "list_all is_hex ''ABC''" "hex_value (doubled ''ABC'') = 0xAABBCC"
  by (simp_all add: is_hex_def hex_digits_def hex_value_def hex_digit_def doubled_def)

text \<open>C5, as stated, fails. The string \<^verbatim>\<open>+abcde\<close> is no known name and not six
  hexadecimal digits, yet with the logger set up the resolver returns the colour
  \<^verbatim>\<open>0xABCDE\<close>, not the default, and logs nothing. And for \<^verbatim>\<open>#zzz\<close> the warning quotes
  \<^verbatim>\<open>zzzzzz\<close>, not the input.\<close>

theorem lenient_hex_gets_no_warning:
  "logger ready_state = Some ''DungeonBot'' \<and>
   py_lower (py_strip ''+abcde'') \<notin> set known_colors \<and>
   \<not> list_all is_hex ''+abcde'' \<and>
   str_to_color sample_Colour ready_state ''+abcde'' = (Inr (Colour 0xABCDE), ready_state) \<and>
   blurple sample_Colour \<noteq> Colour 0xABCDE \<and>
   records (snd (str_to_color sample_Colour ready_state ''#zzz'')) =
     records ready_state @ [invalid_color_warning ''DungeonBot'' ''zzzzzz'']"
proof -
  have a: "str_to_color sample_Colour ready_state ''+abcde'' = (Inr (Colour 0xABCDE), ready_state)"
    by (rule str_to_color_parsed) (simp_all add: plus_abcde)
  have b: "str_to_color sample_Colour ready_state ''#zzz'' =
             (Inr (blurple sample_Colour),
              ready_state\<lparr>records := records ready_state @
                 [invalid_color_warning ''DungeonBot'' (hex_candidate ''#zzz'')]\<rparr>)"
    by (rule str_to_color_default [OF logger_ready_state]) (simp_all add: hash_zzz)
  have c: "blurple sample_Colour \<noteq> Colour 0xABCDE"
    by (simp add: sample_Colour_def)
  have d: "records (snd (str_to_color sample_Colour ready_state ''#zzz'')) =
             records ready_state @ [invalid_color_warning ''DungeonBot'' ''zzzzzz'']"
    by (simp add: b hash_zzz)
  from logger_ready_state plus_abcde(1,4) a c d show ?thesis by blast
qed

text \<open>C5, amended: with the logger set up, for every input that, trimmed and lower-cased,
  is no known colour name, and whose candidate for the integer parser is not six
  characters long or is refused by the parser, the resolver returns the default colour
  and does not raise, and it logs exactly one warning, which quotes that candidate.\<close>

theorem default_for_unparsed:
  "logger st = Some n \<Longrightarrow> py_lower (py_strip s) \<notin> set known_colors \<Longrightarrow>
   length (hex_candidate s) \<noteq> 6 \<or> isl (int_base16 (hex_candidate s)) \<Longrightarrow>
   str_to_color lib st s =
     (Inr (blurple lib), st\<lparr>records := records st @ [invalid_color_warning n (hex_candidate s)]\<rparr>)"
  by (rule str_to_color_default)

theorem default_for_unparsed_witness:
  "logger ready_state = Some ''DungeonBot'' \<and>
   py_lower (py_strip ''zz'') \<notin> set known_colors \<and>
   length (hex_candidate ''zz'') \<noteq> 6 \<and>
   str_to_color sample_Colour ready_state ''zz'' =
     (Inr (Colour 0x5865F2),
      ready_state\<lparr>records := records ready_state @ [invalid_color_warning ''DungeonBot'' ''zz'']\<rparr>) \<and>
   py_lower (py_strip ''#zzz'') \<notin> set known_colors \<and>
   isl (int_base16 (hex_candidate ''#zzz'')) \<and>
   str_to_color sample_Colour ready_state ''#zzz'' =
     (Inr (Colour 0x5865F2),
      ready_state\<lparr>records := records ready_state @ [invalid_color_warning ''DungeonBot'' ''zzzzzz'']\<rparr>)"
proof -
  have a: "str_to_color sample_Colour ready_state ''zz'' =
     (Inr (Colour 0x5865F2),
      ready_state\<lparr>records := records ready_state @ [invalid_color_warning ''DungeonBot'' ''zz'']\<rparr>)"
    using default_for_unparsed [OF logger_ready_state, of "''zz''" sample_Colour]
    by (simp add: zz sample_Colour_def)
  have b: "str_to_color sample_Colour ready_state ''#zzz'' =
     (Inr (Colour 0x5865F2),
      ready_state\<lparr>records := records ready_state @ [invalid_color_warning ''DungeonBot'' ''zzzzzz'']\<rparr>)"
    using default_for_unparsed [OF logger_ready_state, of "''#zzz''" sample_Colour]
    by (simp add: hash_zzz sample_Colour_def)
  have c: "length (hex_candidate ''zz'') \<noteq> 6" "isl (int_base16 (hex_candidate ''#zzz''))"
    by (simp_all add: zz hash_zzz)
  from logger_ready_state zz(1) hash_zzz(1) a b c show ?thesis by blast
qed

text \<open>A known colour name that the library defines, in any letter case and with white
  space around it, resolves to the colour the library defines under that name. Six
  hexadecimal digits, with or without a leading \<^verbatim>\<open>#\<close>, resolve to the colour whose value
  is the number they denote, which is below \<open>2 ^ 24\<close>. Three hexadecimal digits, with or
  without a leading \<^verbatim>\<open>#\<close>, resolve to the value of the six digits got by doubling each.
  Nothing is logged.\<close>

lemma defined_names_and_hex_resolve:
  "(n \<in> set known_colors \<and> py_lower t = n \<and> list_all py_isspace ws \<and> list_all py_isspace ws' \<and>
    classmethods lib n = Some c \<longrightarrow>
      str_to_color lib st (ws @ t @ ws') = (Inr c, st)) \<and>
   (length s = 6 \<and> list_all is_hex s \<longrightarrow>
      str_to_color lib st s = (Inr (Colour (int (hex_value s))), st) \<and>
      str_to_color lib st (CHR ''#'' # s) = (Inr (Colour (int (hex_value s))), st) \<and>
      hex_value s < 2 ^ 24) \<and>
   (length u = 3 \<and> list_all is_hex u \<longrightarrow>
      str_to_color lib st u = (Inr (Colour (int (hex_value (doubled u)))), st) \<and>
      str_to_color lib st (CHR ''#'' # u) = (Inr (Colour (int (hex_value (doubled u)))), st))"
proof -
  have "hex_value s < 2 ^ 24" if "length s = 6"
    using hex_value_bound [of s] that by simp
  then have six: "length s = 6 \<and> list_all is_hex s \<longrightarrow>
      str_to_color lib st s = (Inr (Colour (int (hex_value s))), st) \<and>
      str_to_color lib st (CHR ''#'' # s) = (Inr (Colour (int (hex_value s))), st) \<and>
      hex_value s < 2 ^ 24"
    using str_to_color_hex6 [of s lib st] by blast
  have three: "length u = 3 \<and> list_all is_hex u \<longrightarrow>
      str_to_color lib st u = (Inr (Colour (int (hex_value (doubled u)))), st) \<and>
      str_to_color lib st (CHR ''#'' # u) = (Inr (Colour (int (hex_value (doubled u)))), st)"
    using str_to_color_hex3 [of u lib st] by blast
  have named: "n \<in> set known_colors \<and> py_lower t = n \<and> list_all py_isspace ws \<and>
      list_all py_isspace ws' \<and> classmethods lib n = Some c \<longrightarrow>
        str_to_color lib st (ws @ t @ ws') = (Inr c, st)"
    using str_to_color_known [of n t ws ws' lib c st] by blast
  from named six three show ?thesis by blast
qed


lemma defined_names_and_hex_resolve_examples:
  "''teal'' \<in> set known_colors \<and> py_lower ''TEAL'' = ''teal'' \<and>
   str_to_color sample_Colour ready_state ''  TEAL '' = (Inr (Colour 0x1ABC9C), ready_state) \<and>
   list_all is_hex ''1a2B3c'' \<and>
   str_to_color sample_Colour ready_state ''1a2B3c'' = (Inr (Colour 0x1A2B3C), ready_state) \<and>
   str_to_color sample_Colour ready_state ''#1a2B3c'' = (Inr (Colour 0x1A2B3C), ready_state) \<and>
   list_all is_hex ''ABC'' \<and>
   str_to_color sample_Colour ready_state ''ABC'' = (Inr (Colour 0xAABBCC), ready_state) \<and>
   str_to_color sample_Colour ready_state ''#ABC'' = (Inr (Colour 0xAABBCC), ready_state)"
proof -
  note t = defined_names_and_hex_resolve [where n = "''teal''" and t = "''TEAL''" and ws = "''  ''"
             and ws' = "'' ''" and lib = sample_Colour and c = "Colour 0x1ABC9C"
             and st = ready_state and s = "''1a2B3c''" and u = "''ABC''"]
  have a: "str_to_color sample_Colour ready_state ''  TEAL '' = (Inr (Colour 0x1ABC9C), ready_state)"
    using t [THEN conjunct1] teal_facts by simp
  have b: "str_to_color sample_Colour ready_state ''1a2B3c'' = (Inr (Colour 0x1A2B3C), ready_state)"
          "str_to_color sample_Colour ready_state ''#1a2B3c'' = (Inr (Colour 0x1A2B3C), ready_state)"
    using t [THEN conjunct2, THEN conjunct1] hex_facts by simp_all
  have c: "str_to_color sample_Colour ready_state ''ABC'' = (Inr (Colour 0xAABBCC), ready_state)"
          "str_to_color sample_Colour ready_state ''#ABC'' = (Inr (Colour 0xAABBCC), ready_state)"
    using t [THEN conjunct2, THEN conjunct2] hex_facts by simp_all
  from teal_facts(1,2) hex_facts(1,3) a b c show ?thesis by blast
qed


text \<open>C8: not every string of the known-color set resolves to a named colour. For a known
  name under which the library defines no class method, \<^verbatim>\<open>getattr\<close>, which stands outside
  the \<^verbatim>\<open>try\<close>, raises \<^verbatim>\<open>AttributeError\<close> to the caller and no colour is returned.
  \<^verbatim>\<open>dark_pink\<close> is in the set, and \<^verbatim>\<open>discord.Colour\<close> has no method of that name.\<close>

theorem known_name_without_method_raises:
  "''dark_pink'' \<in> set known_colors \<and>
   (n \<in> set known_colors \<and> classmethods lib n = None \<longrightarrow>
      str_to_color lib st n = (Inl (no_attribute n), st))"
  by (simp add: str_to_color_undefined_name) (simp add: known_colors_def)

theorem known_name_without_method_raises_witness:
  "''dark_pink'' \<in> set known_colors \<and> classmethods sample_Colour ''dark_pink'' = None \<and>
   str_to_color sample_Colour ready_state ''dark_pink'' = (Inl (no_attribute ''dark_pink''), ready_state)"
proof -
  note t = known_name_without_method_raises [of "''dark_pink''" sample_Colour ready_state]
  have c: "classmethods sample_Colour ''dark_pink'' = None"
    by (simp add: sample_Colour_def)
  from t c show ?thesis by blast
qed

text \<open>C10: the hex branch accepts whatever six-character string the base-16 integer
  parser accepts, not only six hexadecimal digits: for an input that is no known name,
  a candidate of six characters that the parser reads as \<open>v\<close> resolves to the colour
  \<open>v\<close> with no warning. \<^verbatim>\<open>+abcde\<close> (a sign) and \<^verbatim>\<open>00_0ff\<close> (an underscore) are such
  inputs: they resolve to \<^verbatim>\<open>0xABCDE\<close> and \<^verbatim>\<open>0xFF\<close>.\<close>

theorem lenient_hex_is_parsed:
  "(py_lower (py_strip s) \<notin> set known_colors \<and> length (hex_candidate s) = 6 \<and>
    int_base16 (hex_candidate s) = Inr v \<longrightarrow>
      str_to_color lib st s = (Inr (Colour v), st)) \<and>
   length ''+abcde'' = 6 \<and> \<not> list_all is_hex ''+abcde'' \<and>
   str_to_color lib st ''+abcde'' = (Inr (Colour 0xABCDE), st) \<and>
   length ''00_0ff'' = 6 \<and> \<not> list_all is_hex ''00_0ff'' \<and>
   str_to_color lib st ''00_0ff'' = (Inr (Colour 0xFF), st)"
proof -
  have a: "str_to_color lib st ''+abcde'' = (Inr (Colour 0xABCDE), st)"
    by (rule str_to_color_parsed) (simp_all add: plus_abcde)
  have b: "str_to_color lib st ''00_0ff'' = (Inr (Colour 0xFF), st)"
    by (rule str_to_color_parsed) (simp_all add: underscore_0ff)
  have l: "length ''+abcde'' = 6" "length ''00_0ff'' = 6" by simp_all
  have g: "py_lower (py_strip s) \<notin> set known_colors \<and> length (hex_candidate s) = 6 \<and>
           int_base16 (hex_candidate s) = Inr v \<longrightarrow>
             str_to_color lib st s = (Inr (Colour v), st)"
    by (simp add: str_to_color_parsed)
  from g l a b plus_abcde(4) underscore_0ff(4) show ?thesis by blast
qed

theorem lenient_hex_is_parsed_witness:
  "py_lower (py_strip ''0X12_4'') \<notin> set known_colors \<and> length (hex_candidate ''0X12_4'') = 6 \<and>
   int_base16 (hex_candidate ''0X12_4'') = Inr 0x124 \<and>
   str_to_color sample_Colour fresh_state ''0X12_4'' = (Inr (Colour 0x124), fresh_state)"
  using lenient_hex_is_parsed [of "''0X12_4''" "0x124" sample_Colour fresh_state, THEN conjunct1]
  by (simp add: prefix_12_4)

end
